theory Spec2Isabelle
  imports Complex_Main
begin

section \<open>ESC/POS print utility: src/components/utils/androidPrint.js\<close>

subsection \<open>JavaScript values read by the module\<close>

text \<open>
  A JavaScript number is NaN, an infinity, or a finite binary64 value, given here by its
  exact rational value. The sign of zero is not kept: no operation of the module
  (multiplication, division by 2, \<open>toFixed\<close>, conversion to a string) tells the two zeros
  apart.
\<close>

datatype jsnum = NaN | PosInf | NegInf | Fin rat

text \<open>
  The primitive values an order record carries once decoded from JSON. \<open>JUndefined\<close> is
  also what reading an absent property gives.
\<close>

datatype jsval = JUndefined | JNull | JBool bool | JNum jsnum | JStr string

text \<open>
  An array-valued or object-valued property: \<open>Missing\<close> (absent, or \<open>undefined\<close>),
  \<open>IsNull\<close>, or present.
\<close>

datatype 'a optional = Missing | IsNull | Present 'a

text \<open>
  What the module takes from the JavaScript runtime and not from its arguments: the two
  strings \<open>getDateTime\<close> reads off the clock, and the three numeric primitives whose
  results depend on the binary64 format (rounding of an exact result, which may overflow
  to an infinity; \<open>StringToNumber\<close>; the shortest round-trip decimal of
  \<open>Number::toString\<close>). They are parameters of the model.
\<close>

record runtime =
  localeDate :: string
  localeTime :: string
  round64 :: "rat \<Rightarrow> jsnum"
  stringToNumber :: "string \<Rightarrow> jsnum"
  shortestDecimal :: "rat \<Rightarrow> string"

datatype error = TypeError

subsection \<open>Conversions: ToNumber, ToString, ToBoolean\<close>

definition digit_char :: "nat \<Rightarrow> char" where
  "digit_char d = ''0123456789'' ! d"

fun dec_digits :: "nat \<Rightarrow> string" where
  "dec_digits n =
     (if n < 10 then [digit_char n] else dec_digits (n div 10) @ [digit_char (n mod 10)])"

declare dec_digits.simps [simp del]

text \<open>
  \<open>Number::toString\<close>: an integer of magnitude at most \<open>2^53\<close> prints as its decimal
  digits; every other finite value prints as the shortest decimal that reads back as the
  same binary64 value, which the runtime supplies.
\<close>

definition numberToString :: "runtime \<Rightarrow> jsnum \<Rightarrow> string" where
  "numberToString rt x =
     (case x of
        NaN \<Rightarrow> ''NaN''
      | PosInf \<Rightarrow> ''Infinity''
      | NegInf \<Rightarrow> ''-Infinity''
      | Fin q \<Rightarrow>
          if of_int \<lfloor>q\<rfloor> = q \<and> \<bar>q\<bar> \<le> 2 ^ 53
          then (if q < 0 then ''-'' else '''') @ dec_digits (nat \<lfloor>\<bar>q\<bar>\<rfloor>)
          else shortestDecimal rt q)"

text \<open>\<open>String(v)\<close> and \<open>`${v}`\<close>.\<close>

definition toStr :: "runtime \<Rightarrow> jsval \<Rightarrow> string" where
  "toStr rt v =
     (case v of
        JUndefined \<Rightarrow> ''undefined''
      | JNull \<Rightarrow> ''null''
      | JBool b \<Rightarrow> (if b then ''true'' else ''false'')
      | JNum n \<Rightarrow> numberToString rt n
      | JStr s \<Rightarrow> s)"

text \<open>The operand conversion of \<open>*\<close> and \<open>/\<close>.\<close>

definition toNumber :: "runtime \<Rightarrow> jsval \<Rightarrow> jsnum" where
  "toNumber rt v =
     (case v of
        JUndefined \<Rightarrow> NaN
      | JNull \<Rightarrow> Fin 0
      | JBool b \<Rightarrow> Fin (if b then 1 else 0)
      | JNum n \<Rightarrow> n
      | JStr s \<Rightarrow> stringToNumber rt s)"

text \<open>The test of \<open>if (v)\<close>, \<open>v || w\<close> and \<open>v && w\<close>.\<close>

definition truthy :: "jsval \<Rightarrow> bool" where
  "truthy v =
     (case v of
        JUndefined \<Rightarrow> False
      | JNull \<Rightarrow> False
      | JBool b \<Rightarrow> b
      | JNum n \<Rightarrow> n \<noteq> NaN \<and> n \<noteq> Fin 0
      | JStr s \<Rightarrow> s \<noteq> [])"

text \<open>\<open>a || b\<close>\<close>

definition js_or :: "jsval \<Rightarrow> jsval \<Rightarrow> jsval" where
  "js_or a b = (if truthy a then a else b)"

subsection \<open>Arithmetic and \<open>Number.prototype.toFixed\<close>\<close>

definition is_neg :: "jsnum \<Rightarrow> bool" where
  "is_neg x = (case x of NegInf \<Rightarrow> True | Fin q \<Rightarrow> q < 0 | _ \<Rightarrow> False)"

text \<open>\<open>x * y\<close> on numbers.\<close>

definition num_mul :: "runtime \<Rightarrow> jsnum \<Rightarrow> jsnum \<Rightarrow> jsnum" where
  "num_mul rt x y =
     (if x = NaN \<or> y = NaN then NaN
      else case (x, y) of
        (Fin a, Fin b) \<Rightarrow> round64 rt (a * b)
      | _ \<Rightarrow>
          if x = Fin 0 \<or> y = Fin 0 then NaN
          else if is_neg x \<noteq> is_neg y then NegInf
          else PosInf)"

text \<open>\<open>x / 2\<close> on numbers.\<close>

definition num_half :: "runtime \<Rightarrow> jsnum \<Rightarrow> jsnum" where
  "num_half rt x = (case x of Fin q \<Rightarrow> round64 rt (q / 2) | _ \<Rightarrow> x)"

text \<open>
  The digits of \<open>toFixed(f)\<close> for a finite value below \<open>10^21\<close> in magnitude: the integer
  \<open>n\<close> nearest to \<open>|q| * 10^f\<close> (the larger one on a tie), padded with zeros to at
  least \<open>f + 1\<close> digits, with the point before the last \<open>f\<close> digits.
\<close>

definition fixed_digits :: "nat \<Rightarrow> rat \<Rightarrow> string" where
  "fixed_digits f q =
     (let s = (if q < 0 then ''-'' else '''');
          n = nat \<lfloor>\<bar>q\<bar> * 10 ^ f + 1 / 2\<rfloor>;
          m = dec_digits n
      in if f = 0 then s @ m
         else
           (let m' = (if length m \<le> f then replicate (f + 1 - length m) CHR ''0'' @ m else m);
                k = length m'
            in s @ take (k - f) m' @ ''.'' @ drop (k - f) m'))"

definition toFixed :: "runtime \<Rightarrow> nat \<Rightarrow> jsnum \<Rightarrow> string" where
  "toFixed rt f x =
     (case x of
        NaN \<Rightarrow> ''NaN''
      | PosInf \<Rightarrow> ''Infinity''
      | NegInf \<Rightarrow> ''-Infinity''
      | Fin q \<Rightarrow> if \<bar>q\<bar> \<ge> 10 ^ 21 then numberToString rt (Fin q) else fixed_digits f q)"

text \<open>
  The method call \<open>v.toFixed(f)\<close>: reading a property of \<open>undefined\<close> or \<open>null\<close>
  throws, and a boolean or a string has no \<open>toFixed\<close> to call.
\<close>

definition call_toFixed :: "runtime \<Rightarrow> jsval \<Rightarrow> nat \<Rightarrow> error + string" where
  "call_toFixed rt v f = (case v of JNum n \<Rightarrow> Inr (toFixed rt f n) | _ \<Rightarrow> Inl TypeError)"

subsection \<open>Helpers\<close>

text \<open>
  The layout helpers apply \<open>String(...)\<close> to their arguments first; here they take the
  strings, and each call site converts with \<open>toStr\<close>.
\<close>

definition padEnd :: "string \<Rightarrow> nat \<Rightarrow> string" where
  "padEnd s len =
     (if length s \<ge> len then take len s else s @ replicate (len - length s) CHR '' '')"

definition padStart :: "string \<Rightarrow> nat \<Rightarrow> string" where
  "padStart s len =
     (if length s \<ge> len then take len s else replicate (len - length s) CHR '' '' @ s)"

definition twoCol :: "string \<Rightarrow> string \<Rightarrow> nat \<Rightarrow> string" where
  "twoCol l r totalWidth =
     (let padding = int totalWidth - int (length l) - int (length r)
      in l @ (if padding > 0 then replicate (nat padding) CHR '' '' else '' '') @ r
           @ ''\<newline>'')"

definition center :: "string \<Rightarrow> nat \<Rightarrow> string" where
  "center s width =
     (if length s \<ge> width then s @ ''\<newline>''
      else replicate ((width - length s) div 2) CHR '' '' @ s @ ''\<newline>'')"

definition getDateTime :: "runtime \<Rightarrow> string" where
  "getDateTime rt = localeDate rt @ ''  '' @ localeTime rt"

subsection \<open>Order data\<close>

text \<open>
  The order id and the ticket code are strings, \<open>orderDetails\<close> is an object and its
  items are objects, as the callers pass them. A field that the source tests with
  \<open>||\<close>, converts with \<open>String\<close> or a template, or computes with, is kept as the value
  the record holds, so that a missing or ill-typed field is an input of the model: a
  scalar field is a \<open>jsval\<close>, a list-valued field is \<open>optional\<close>.

  A customization is a plain label, or an object; of an object only the \<open>name\<close>
  property is read (\<open>JUndefined\<close> when the object has none).
\<close>

datatype customization = CStr string | CObj jsval

record item =
  itemName :: jsval
  price :: jsval
  quantity :: jsval
  categoryId :: jsval
  selectedCustomizations :: "customization list optional"

record order_details =
  billType :: jsval
  kiosk :: jsval
  items :: "item list optional"
  subtotal :: jsval
  tax :: jsval
  total :: jsval

definition COFFEE_CATEGORY_ID :: string where
  "COFFEE_CATEGORY_ID = ''6868ca5dc29c8ed4d3c98dd8''"

subsection \<open>ESC/POS command constants\<close>

definition ESC :: string where "ESC = [CHR 0x1B]"
definition GS :: string where "GS = [CHR 0x1D]"

definition CMD_INIT :: string where "CMD_INIT = ESC @ ''@''"
definition CMD_ALIGN_LEFT :: string where "CMD_ALIGN_LEFT = ESC @ [CHR ''a'', CHR 0x00]"
definition CMD_ALIGN_CENTER :: string where "CMD_ALIGN_CENTER = ESC @ [CHR ''a'', CHR 0x01]"
definition CMD_ALIGN_RIGHT :: string where "CMD_ALIGN_RIGHT = ESC @ [CHR ''a'', CHR 0x02]"
definition CMD_BOLD_ON :: string where "CMD_BOLD_ON = ESC @ [CHR ''E'', CHR 0x01]"
definition CMD_BOLD_OFF :: string where "CMD_BOLD_OFF = ESC @ [CHR ''E'', CHR 0x00]"
definition CMD_DOUBLE_HEIGHT :: string where "CMD_DOUBLE_HEIGHT = ESC @ [CHR ''!'', CHR 0x10]"
definition CMD_DOUBLE_BOTH :: string where "CMD_DOUBLE_BOTH = ESC @ [CHR ''!'', CHR 0x38]"
definition CMD_NORMAL_TEXT :: string where "CMD_NORMAL_TEXT = ESC @ [CHR ''!'', CHR 0x00]"
definition CMD_CUT :: string where "CMD_CUT = GS @ [CHR ''V'', CHR 0x41, CHR 0x00]"
definition CMD_FEED3 :: string where "CMD_FEED3 = ''\<newline>\<newline>\<newline>''"

text \<open>The separator line of 40 dashes that every section ends with.\<close>

definition dashes :: string where
  "dashes = ''----------------------------------------\<newline>''"

subsection \<open>Parts shared by the builders\<close>

text \<open>\<open>orderDetails.items || []\<close>\<close>

definition itemsOrEmpty :: "order_details \<Rightarrow> item list" where
  "itemsOrEmpty orderDetails = (case items orderDetails of Present xs \<Rightarrow> xs | _ \<Rightarrow> [])"

text \<open>
  \<open>`${c.name || c}`\<close>: a string has no \<open>name\<close> property and prints as itself; an
  object prints its \<open>name\<close> when that is truthy, and otherwise as \<open>String(c)\<close>.
\<close>

definition customization_text :: "runtime \<Rightarrow> customization \<Rightarrow> string" where
  "customization_text rt c =
     (case c of
        CStr s \<Rightarrow> s
      | CObj n \<Rightarrow> if truthy n then toStr rt n else ''[object Object]'')"

text \<open>
  The block \<open>if (item.selectedCustomizations && item.selectedCustomizations.length > 0)\<close>
  with its \<open>forEach\<close>; \<open>indent\<close> is the text before each label.
\<close>

definition customization_lines :: "runtime \<Rightarrow> string \<Rightarrow> item \<Rightarrow> string" where
  "customization_lines rt indent item =
     (case selectedCustomizations item of
        Present cs \<Rightarrow>
          if length cs > 0
          then concat (map (\<lambda>c. indent @ customization_text rt c @ ''\<newline>'') cs)
          else []
      | _ \<Rightarrow> [])"

text \<open>\<open>s.slice(from)\<close> and \<open>s.slice(from, to)\<close> for \<open>0 \<le> from \<le> to\<close>.\<close>

definition slice_from :: "string \<Rightarrow> nat \<Rightarrow> string" where
  "slice_from s from = drop from s"

definition slice :: "string \<Rightarrow> nat \<Rightarrow> nat \<Rightarrow> string" where
  "slice s from to = take (to - from) (drop from s)"

subsection \<open>buildBillEscPos\<close>

definition bill_header :: string where
  "bill_header =
     CMD_INIT
     @ CMD_ALIGN_CENTER
     @ CMD_DOUBLE_BOTH
     @ ''KTR\<newline>''
     @ CMD_NORMAL_TEXT
     @ ''Karnataka Tiffin Room\<newline>''
     @ ''Bringing the flavors of Bengaluru\<newline>''
     @ ''-\<newline>''
     @ ''KTR-Versova\<newline>''
     @ CMD_NORMAL_TEXT
     @ ''Shop 202, JP Rd, Aram Nagar Pt 2,\<newline>''
     @ ''Versova, Andheri West, Mumbai 400061\<newline>''
     @ dashes"

definition bill_kot_code :: "string \<Rightarrow> string" where
  "bill_kot_code kot_code =
     CMD_ALIGN_CENTER
     @ CMD_BOLD_ON
     @ ''KOT: '' @ kot_code @ ''\<newline>''
     @ CMD_BOLD_OFF
     @ dashes"

definition bill_info :: "runtime \<Rightarrow> string \<Rightarrow> jsval \<Rightarrow> order_details \<Rightarrow> jsval \<Rightarrow> string" where
  "bill_info rt orderId KDSInvoiceId orderDetails orderType =
     CMD_ALIGN_LEFT
     @ ''BILL NO : '' @ orderId @ ''\<newline>''
     @ (if truthy KDSInvoiceId then ''KDS ID  : '' @ toStr rt KDSInvoiceId @ ''\<newline>'' else [])
     @ ''DATE    : '' @ getDateTime rt @ ''\<newline>''
     @ ''TYPE    : ''
         @ toStr rt (js_or orderType (js_or (billType orderDetails) (JStr ''DINE IN'')))
         @ ''\<newline>''
     @ ''KIOSK   : '' @ toStr rt (js_or (kiosk orderDetails) (JStr ''KTR1'')) @ ''\<newline>''
     @ dashes"

definition bill_items_header :: string where
  "bill_items_header =
     CMD_BOLD_ON
     @ padEnd ''DESCRIPTION'' 22 @ padEnd ''QTY'' 4 @ padStart ''AMOUNT'' 14 @ ''\<newline>''
     @ CMD_BOLD_OFF
     @ dashes"

definition bill_item_row :: "runtime \<Rightarrow> item \<Rightarrow> string" where
  "bill_item_row rt item =
     (let itemTotal =
            toFixed rt 2 (num_mul rt (toNumber rt (price item)) (toNumber rt (quantity item)));
          nameLine = padEnd (toStr rt (itemName item)) 22;
          qty = padEnd (toStr rt (quantity item)) 4;
          amt = padStart (''Rs '' @ itemTotal) 14
      in nameLine @ qty @ amt @ ''\<newline>'' @ customization_lines rt ''  + '' item)"

definition bill_items :: "runtime \<Rightarrow> order_details \<Rightarrow> string" where
  "bill_items rt orderDetails =
     concat (map (bill_item_row rt) (itemsOrEmpty orderDetails)) @ dashes"

text \<open>
  The totals block. \<open>orderDetails.subtotal.toFixed(2)\<close> and
  \<open>orderDetails.total.toFixed(0)\<close> are method calls on the field as it is;
  \<open>(orderDetails.tax / 2).toFixed(2)\<close> is a call on the result of a division.
\<close>

definition bill_totals :: "runtime \<Rightarrow> order_details \<Rightarrow> error + string" where
  "bill_totals rt orderDetails =
     (case call_toFixed rt (subtotal orderDetails) 2 of
        Inl e \<Rightarrow> Inl e
      | Inr sub \<Rightarrow>
          (let half = toFixed rt 2 (num_half rt (toNumber rt (tax orderDetails)))
           in case call_toFixed rt (total orderDetails) 0 of
                Inl e \<Rightarrow> Inl e
              | Inr tot \<Rightarrow>
                  Inr (twoCol ''Subtotal:'' (''Rs '' @ sub) 40
                       @ twoCol ''CGST 2.5%:'' (''+'' @ half) 40
                       @ twoCol ''SGST 2.5%:'' (''+'' @ half) 40
                       @ dashes
                       @ CMD_BOLD_ON
                       @ CMD_DOUBLE_HEIGHT
                       @ twoCol ''TOTAL:'' (''Rs '' @ tot) 40
                       @ CMD_NORMAL_TEXT
                       @ CMD_BOLD_OFF
                       @ dashes)))"

definition bill_footer :: string where
  "bill_footer =
     CMD_ALIGN_CENTER
     @ ''GST: 27AA0FH7156G1Z0\<newline>''
     @ ''CIN: 6731\<newline>''
     @ ''FSSAI: 21524005001190\<newline>''
     @ ''\<newline>''
     @ CMD_BOLD_ON
     @ ''Thank You! Visit Again :)\<newline>''
     @ CMD_BOLD_OFF"

text \<open>
  The document is the concatenation of its sections in the order of the source; an
  exception thrown in the totals block leaves the function without a result.
  \<open>transactionDetails\<close> is accepted and never read.
\<close>

definition buildBillEscPos ::
  "runtime \<Rightarrow> string \<Rightarrow> string \<Rightarrow> jsval \<Rightarrow> order_details \<Rightarrow> jsval \<Rightarrow> jsval \<Rightarrow> error + string"
where
  "buildBillEscPos rt orderId kot_code KDSInvoiceId orderDetails orderType transactionDetails =
     (case bill_totals rt orderDetails of
        Inl e \<Rightarrow> Inl e
      | Inr totals \<Rightarrow>
          Inr (bill_header
               @ bill_kot_code kot_code
               @ bill_info rt orderId KDSInvoiceId orderDetails orderType
               @ bill_items_header
               @ bill_items rt orderDetails
               @ totals
               @ bill_footer
               @ CMD_FEED3
               @ CMD_CUT))"

subsection \<open>buildFoodKOTEscPos and buildCoffeeKOTEscPos\<close>

definition foodItems :: "order_details \<Rightarrow> item list" where
  "foodItems orderDetails =
     filter (\<lambda>item. categoryId item \<noteq> JStr COFFEE_CATEGORY_ID) (itemsOrEmpty orderDetails)"

definition coffeeItems :: "order_details \<Rightarrow> item list" where
  "coffeeItems orderDetails =
     filter (\<lambda>item. categoryId item = JStr COFFEE_CATEGORY_ID) (itemsOrEmpty orderDetails)"

text \<open>The three blocks whose text is the same in both ticket builders.\<close>

definition kot_token :: "string \<Rightarrow> string" where
  "kot_token kot_code =
     CMD_ALIGN_CENTER
     @ CMD_DOUBLE_BOTH
     @ slice_from kot_code 4 @ ''\<newline>''
     @ CMD_NORMAL_TEXT
     @ ''KOT: '' @ kot_code @ ''\<newline>''
     @ dashes"

definition kot_order_info :: "runtime \<Rightarrow> string \<Rightarrow> order_details \<Rightarrow> string" where
  "kot_order_info rt orderId orderDetails =
     CMD_ALIGN_LEFT
     @ ''BILL TYPE : '' @ toStr rt (js_or (billType orderDetails) (JStr ''DINE IN''))
         @ ''\<newline>''
     @ ''BILL NO   : KTR-'' @ slice orderId 4 10 @ ''\<newline>''
     @ ''DATE/TIME : '' @ getDateTime rt @ ''\<newline>''
     @ ''KIOSK     : '' @ toStr rt (js_or (kiosk orderDetails) (JStr ''KTR1'')) @ ''\<newline>''
     @ dashes"

definition kot_item_row :: "runtime \<Rightarrow> item \<Rightarrow> string" where
  "kot_item_row rt item =
     padEnd (toStr rt (quantity item)) 5 @ toStr rt (itemName item) @ ''\<newline>''
     @ customization_lines rt ''       + '' item"

definition buildFoodKOTEscPos ::
  "runtime \<Rightarrow> string \<Rightarrow> string \<Rightarrow> jsval \<Rightarrow> order_details \<Rightarrow> string option"
where
  "buildFoodKOTEscPos rt orderId kot_code KDSInvoiceId orderDetails =
     (if length (foodItems orderDetails) = 0 then None
      else
        Some (CMD_INIT
              @ CMD_ALIGN_CENTER
              @ CMD_BOLD_ON
              @ ''Karnataka Tiffin Room (Versova)\<newline>''
              @ CMD_BOLD_OFF
              @ ''*** FOOD KOT ***\<newline>''
              @ dashes
              @ kot_token kot_code
              @ kot_order_info rt orderId orderDetails
              @ CMD_BOLD_ON
              @ ''QTY  ITEM\<newline>''
              @ CMD_BOLD_OFF
              @ dashes
              @ concat (map (kot_item_row rt) (foodItems orderDetails))
              @ dashes
              @ ''Instruction:\<newline>''
              @ ''\<newline>''
              @ CMD_FEED3
              @ CMD_CUT))"

definition buildCoffeeKOTEscPos ::
  "runtime \<Rightarrow> string \<Rightarrow> string \<Rightarrow> jsval \<Rightarrow> order_details \<Rightarrow> string option"
where
  "buildCoffeeKOTEscPos rt orderId kot_code KDSInvoiceId orderDetails =
     (if length (coffeeItems orderDetails) = 0 then None
      else
        Some (CMD_INIT
              @ CMD_ALIGN_CENTER
              @ CMD_BOLD_ON
              @ ''Karnataka Tiffin Room (Versova)\<newline>''
              @ CMD_BOLD_OFF
              @ ''*** COFFEE KOT ***\<newline>''
              @ ''--- COFFEE COUNTER ---\<newline>''
              @ dashes
              @ kot_token kot_code
              @ kot_order_info rt orderId orderDetails
              @ CMD_BOLD_ON
              @ ''QTY  COFFEE ITEM\<newline>''
              @ CMD_BOLD_OFF
              @ dashes
              @ concat (map (kot_item_row rt) (coffeeItems orderDetails))
              @ dashes
              @ ''Instruction: COFFEE COUNTER\<newline>''
              @ ''\<newline>''
              @ CMD_FEED3
              @ CMD_CUT))"

subsection \<open>Android bridge callers\<close>












subsection \<open>Example data\<close>

text \<open>
  A runtime to evaluate examples with: a clock reading, exact arithmetic (the result a
  binary64 runtime gives whenever the exact result is a binary64 value, as with the small
  amounts below), and placeholders for the two string primitives, which the examples do
  not reach.
\<close>

definition example_runtime :: runtime where
  "example_runtime =
     \<lparr>localeDate = ''02/11/2026'', localeTime = ''10:30 PM'', round64 = Fin,
      stringToNumber = (\<lambda>s. NaN), shortestDecimal = (\<lambda>q. [])\<rparr>"

definition idli :: item where
  "idli =
     \<lparr>itemName = JStr ''Idli'', price = JNum (Fin 40), quantity = JNum (Fin 2),
      categoryId = JStr ''6868ca5dc29c8ed4d3c98dd7'', selectedCustomizations = Missing\<rparr>"

definition filter_coffee :: item where
  "filter_coffee =
     \<lparr>itemName = JStr ''Filter Coffee'', price = JNum (Fin 20), quantity = JNum (Fin 1),
      categoryId = JStr COFFEE_CATEGORY_ID,
      selectedCustomizations = Present [CStr ''Less sugar'', CObj (JStr ''Strong'')]\<rparr>"

definition example_order :: order_details where
  "example_order =
     \<lparr>billType = JStr ''TAKEAWAY'', kiosk = JUndefined, items = Present [idli, filter_coffee],
      subtotal = JNum (Fin 100), tax = JNum (Fin 10), total = JNum (Fin 110)\<rparr>"

definition coffee_only_order :: order_details where
  "coffee_only_order = example_order\<lparr>items := Present [filter_coffee]\<rparr>"

text \<open>An item whose category is the coffee constant in upper case.\<close>

definition upper_case_coffee :: item where
  "upper_case_coffee = filter_coffee\<lparr>categoryId := JStr ''6868CA5DC29C8ED4D3C98DD8''\<rparr>"

definition upper_case_order :: order_details where
  "upper_case_order = example_order\<lparr>items := Present [upper_case_coffee]\<rparr>"

text \<open>Orders with malformed numeric fields.\<close>

definition no_subtotal_order :: order_details where
  "no_subtotal_order = example_order\<lparr>subtotal := JUndefined\<rparr>"

definition text_total_order :: order_details where
  "text_total_order = example_order\<lparr>total := JStr ''110''\<rparr>"

definition unpriced_idli :: item where
  "unpriced_idli = idli\<lparr>price := JUndefined\<rparr>"

definition garbled_order :: order_details where
  "garbled_order = example_order\<lparr>items := Present [unpriced_idli], tax := JUndefined\<rparr>"

definition no_items_order :: order_details where
  "no_items_order = example_order\<lparr>items := Missing\<rparr>"

text \<open>
  The three documents of \<open>example_order\<close> with order id \<open>ORD-123456789\<close> and ticket code
  \<open>KOT-42\<close>, written out.
\<close>

definition example_bill :: string where
  "example_bill =
     [CHR 0x1B, CHR ''@''] @ [CHR 0x1B, CHR ''a'', CHR 0x01] @ [CHR 0x1B, CHR ''!'', CHR ''8'']
     @ ''KTR\<newline>''
     @ [CHR 0x1B, CHR ''!'', CHR 0x00] @ ''Karnataka Tiffin Room\<newline>''
     @ ''Bringing the flavors of Bengaluru\<newline>''
     @ ''-\<newline>''
     @ ''KTR-Versova\<newline>''
     @ [CHR 0x1B, CHR ''!'', CHR 0x00] @ ''Shop 202, JP Rd, Aram Nagar Pt 2,\<newline>''
     @ ''Versova, Andheri West, Mumbai 400061\<newline>''
     @ ''----------------------------------------\<newline>''
     @ [CHR 0x1B, CHR ''a'', CHR 0x01] @ [CHR 0x1B, CHR ''E'', CHR 0x01]
     @ ''KOT: KOT-42\<newline>''
     @ [CHR 0x1B, CHR ''E'', CHR 0x00] @ ''----------------------------------------\<newline>''
     @ [CHR 0x1B, CHR ''a'', CHR 0x00] @ ''BILL NO : ORD-123456789\<newline>''
     @ ''DATE    : 02/11/2026  10:30 PM\<newline>''
     @ ''TYPE    : TAKEAWAY\<newline>''
     @ ''KIOSK   : KTR1\<newline>''
     @ ''----------------------------------------\<newline>''
     @ [CHR 0x1B, CHR ''E'', CHR 0x01] @ ''DESCRIPTION           QTY         AMOUNT\<newline>''
     @ [CHR 0x1B, CHR ''E'', CHR 0x00] @ ''----------------------------------------\<newline>''
     @ ''Idli                  2         Rs 80.00\<newline>''
     @ ''Filter Coffee         1         Rs 20.00\<newline>''
     @ ''  + Less sugar\<newline>''
     @ ''  + Strong\<newline>''
     @ ''----------------------------------------\<newline>''
     @ ''Subtotal:                      Rs 100.00\<newline>''
     @ ''CGST 2.5%:                         +5.00\<newline>''
     @ ''SGST 2.5%:                         +5.00\<newline>''
     @ ''----------------------------------------\<newline>''
     @ [CHR 0x1B, CHR ''E'', CHR 0x01] @ [CHR 0x1B, CHR ''!'', CHR 0x10]
     @ ''TOTAL:                            Rs 110\<newline>''
     @ [CHR 0x1B, CHR ''!'', CHR 0x00] @ [CHR 0x1B, CHR ''E'', CHR 0x00]
     @ ''----------------------------------------\<newline>''
     @ [CHR 0x1B, CHR ''a'', CHR 0x01] @ ''GST: 27AA0FH7156G1Z0\<newline>''
     @ ''CIN: 6731\<newline>''
     @ ''FSSAI: 21524005001190\<newline>''
     @ ''\<newline>''
     @ [CHR 0x1B, CHR ''E'', CHR 0x01] @ ''Thank You! Visit Again :)\<newline>''
     @ [CHR 0x1B, CHR ''E'', CHR 0x00] @ ''\<newline>''
     @ ''\<newline>''
     @ ''\<newline>''
     @ [CHR 0x1D, CHR ''V'', CHR ''A'', CHR 0x00]"

definition example_food_kot :: string where
  "example_food_kot =
     [CHR 0x1B, CHR ''@''] @ [CHR 0x1B, CHR ''a'', CHR 0x01] @ [CHR 0x1B, CHR ''E'', CHR 0x01]
     @ ''Karnataka Tiffin Room (Versova)\<newline>''
     @ [CHR 0x1B, CHR ''E'', CHR 0x00] @ ''*** FOOD KOT ***\<newline>''
     @ ''----------------------------------------\<newline>''
     @ [CHR 0x1B, CHR ''a'', CHR 0x01] @ [CHR 0x1B, CHR ''!'', CHR ''8''] @ ''42\<newline>''
     @ [CHR 0x1B, CHR ''!'', CHR 0x00] @ ''KOT: KOT-42\<newline>''
     @ ''----------------------------------------\<newline>''
     @ [CHR 0x1B, CHR ''a'', CHR 0x00] @ ''BILL TYPE : TAKEAWAY\<newline>''
     @ ''BILL NO   : KTR-123456\<newline>''
     @ ''DATE/TIME : 02/11/2026  10:30 PM\<newline>''
     @ ''KIOSK     : KTR1\<newline>''
     @ ''----------------------------------------\<newline>''
     @ [CHR 0x1B, CHR ''E'', CHR 0x01] @ ''QTY  ITEM\<newline>''
     @ [CHR 0x1B, CHR ''E'', CHR 0x00] @ ''----------------------------------------\<newline>''
     @ ''2    Idli\<newline>''
     @ ''----------------------------------------\<newline>''
     @ ''Instruction:\<newline>''
     @ ''\<newline>''
     @ ''\<newline>''
     @ ''\<newline>''
     @ ''\<newline>''
     @ [CHR 0x1D, CHR ''V'', CHR ''A'', CHR 0x00]"

definition example_coffee_kot :: string where
  "example_coffee_kot =
     [CHR 0x1B, CHR ''@''] @ [CHR 0x1B, CHR ''a'', CHR 0x01] @ [CHR 0x1B, CHR ''E'', CHR 0x01]
     @ ''Karnataka Tiffin Room (Versova)\<newline>''
     @ [CHR 0x1B, CHR ''E'', CHR 0x00] @ ''*** COFFEE KOT ***\<newline>''
     @ ''--- COFFEE COUNTER ---\<newline>''
     @ ''----------------------------------------\<newline>''
     @ [CHR 0x1B, CHR ''a'', CHR 0x01] @ [CHR 0x1B, CHR ''!'', CHR ''8''] @ ''42\<newline>''
     @ [CHR 0x1B, CHR ''!'', CHR 0x00] @ ''KOT: KOT-42\<newline>''
     @ ''----------------------------------------\<newline>''
     @ [CHR 0x1B, CHR ''a'', CHR 0x00] @ ''BILL TYPE : TAKEAWAY\<newline>''
     @ ''BILL NO   : KTR-123456\<newline>''
     @ ''DATE/TIME : 02/11/2026  10:30 PM\<newline>''
     @ ''KIOSK     : KTR1\<newline>''
     @ ''----------------------------------------\<newline>''
     @ [CHR 0x1B, CHR ''E'', CHR 0x01] @ ''QTY  COFFEE ITEM\<newline>''
     @ [CHR 0x1B, CHR ''E'', CHR 0x00] @ ''----------------------------------------\<newline>''
     @ ''1    Filter Coffee\<newline>''
     @ ''       + Less sugar\<newline>''
     @ ''       + Strong\<newline>''
     @ ''----------------------------------------\<newline>''
     @ ''Instruction: COFFEE COUNTER\<newline>''
     @ ''\<newline>''
     @ ''\<newline>''
     @ ''\<newline>''
     @ ''\<newline>''
     @ [CHR 0x1D, CHR ''V'', CHR ''A'', CHR 0x00]"


subsection \<open>The fallback chain as the specification words it\<close>

text \<open>\<open>a ?? b\<close>: \<open>b\<close> when \<open>a\<close> is \<open>undefined\<close> or \<open>null\<close>, and \<open>a\<close> otherwise.\<close>

definition nullish_or :: "jsval \<Rightarrow> jsval \<Rightarrow> jsval" where
  "nullish_or a b = (if a = JUndefined \<or> a = JNull then b else a)"

text \<open>\<open>orderType ?? orderDetails.billType ?? "DINE IN"\<close>\<close>

definition spec_order_type :: "jsval \<Rightarrow> order_details \<Rightarrow> jsval" where
  "spec_order_type orderType orderDetails =
     nullish_or orderType (nullish_or (billType orderDetails) (JStr ''DINE IN''))"

text \<open>The example runtime one minute later.\<close>

definition later_runtime :: runtime where
  "later_runtime = example_runtime\<lparr>localeTime := ''10:31 PM''\<rparr>"


subsection \<open>Reading a formatted amount\<close>

definition is_digit :: "char \<Rightarrow> bool" where
  "is_digit c = (c \<in> set ''0123456789'')"

text \<open>An item whose amount is one hundred million.\<close>

definition banquet :: item where
  "banquet =
     \<lparr>itemName = JStr ''Banquet'', price = JNum (Fin 100000000), quantity = JNum (Fin 1),
      categoryId = JStr ''6868ca5dc29c8ed4d3c98dd7'', selectedCustomizations = Missing\<rparr>"

section \<open>Properties\<close>

subsection \<open>Two-column rows\<close>

lemma twoCol_gap:
  "twoCol l r w =
     l @ replicate (if length l + length r < w then w - length l - length r else 1) CHR '' ''
       @ r @ ''\<newline>''"
proof (cases "length l + length r < w")
  case True
  then have "int w - int (length l) - int (length r) > 0" by linarith
  moreover have "nat (int w - int (length l) - int (length r)) = w - length l - length r"
    by linarith
  ultimately show ?thesis using True by (simp add: twoCol_def Let_def)
next
  case False
  then have "\<not> int w - int (length l) - int (length r) > 0" by linarith
  then show ?thesis using False by (simp add: twoCol_def Let_def)
qed

text \<open>
  C6. For all strings \<open>left\<close> and \<open>right\<close>, \<open>twoCol left right 40\<close> is \<open>left\<close>, then
  spaces, then \<open>right\<close>, then the line terminator. When the two fit in fewer than 40
  columns the row without its terminator is exactly 40 wide, so \<open>left\<close> is flush left
  and \<open>right\<close> flush right; when their combined length exceeds 40 (and also when it
  is exactly 40) the gap is exactly one space and neither side is cut. In every case
  the row without its terminator is at least \<open>length left + length right + 1\<close> long.
\<close>

theorem twoCol_layout:
  "(\<exists>gap. gap \<ge> 1 \<and> twoCol l r 40 = l @ replicate gap CHR '' '' @ r @ ''\<newline>'')
   \<and> (length l + length r < 40 \<longrightarrow> length (twoCol l r 40) - 1 = 40)
   \<and> (length l + length r \<ge> 40 \<longrightarrow> twoCol l r 40 = l @ '' '' @ r @ ''\<newline>'')
   \<and> length (twoCol l r 40) - 1 \<ge> length l + length r + 1"
proof -
  let ?gap = "if length l + length r < 40 then 40 - length l - length r else 1"
  have eq: "twoCol l r 40 = l @ replicate ?gap CHR '' '' @ r @ ''\<newline>''"
    by (rule twoCol_gap)
  have pos: "?gap \<ge> 1" by (simp split: if_splits) arith
  have gap: "\<exists>gap. gap \<ge> 1 \<and> twoCol l r 40 = l @ replicate gap CHR '' '' @ r @ ''\<newline>''"
    using eq pos by blast
  have fit: "length l + length r < 40 \<longrightarrow> length (twoCol l r 40) - 1 = 40"
    unfolding eq by simp
  have over: "length l + length r \<ge> 40 \<longrightarrow> twoCol l r 40 = l @ '' '' @ r @ ''\<newline>''"
    unfolding eq by simp
  have len: "length (twoCol l r 40) - 1 \<ge> length l + length r + 1"
    unfolding eq using pos by simp
  from gap fit over len show ?thesis by blast
qed

theorem twoCol_layout_witness:
  "length ''TOTAL:'' + length ''Rs 110'' < 40
   \<and> length (twoCol ''TOTAL:'' ''Rs 110'' 40) - 1 = 40
   \<and> length ''Subtotal: a very long label here'' + length ''Rs 100000.00'' \<ge> 40
   \<and> twoCol ''Subtotal: a very long label here'' ''Rs 100000.00'' 40
       = ''Subtotal: a very long label here'' @ '' '' @ ''Rs 100000.00'' @ ''\<newline>''"
  using twoCol_layout [of "''TOTAL:''" "''Rs 110''"]
    twoCol_layout [of "''Subtotal: a very long label here''" "''Rs 100000.00''"]
  by simp

subsection \<open>Ticket builders and the category filter\<close>

lemma foodItems_empty_iff:
  "foodItems od = [] \<longleftrightarrow>
     \<not> (\<exists>i \<in> set (itemsOrEmpty od). categoryId i \<noteq> JStr COFFEE_CATEGORY_ID)"
  by (auto simp add: foodItems_def filter_empty_conv)

lemma coffeeItems_empty_iff:
  "coffeeItems od = [] \<longleftrightarrow>
     \<not> (\<exists>i \<in> set (itemsOrEmpty od). categoryId i = JStr COFFEE_CATEGORY_ID)"
  by (auto simp add: coffeeItems_def filter_empty_conv)

lemma CMD_INIT_nonempty: "CMD_INIT @ rest \<noteq> []"
  by (simp add: CMD_INIT_def ESC_def)

lemma food_None_iff:
  "buildFoodKOTEscPos rt orderId kot_code kds od = None \<longleftrightarrow> foodItems od = []"
  by (simp add: buildFoodKOTEscPos_def)

lemma coffee_None_iff:
  "buildCoffeeKOTEscPos rt orderId kot_code kds od = None \<longleftrightarrow> coffeeItems od = []"
  by (simp add: buildCoffeeKOTEscPos_def)

lemma food_Some_nonempty:
  "buildFoodKOTEscPos rt orderId kot_code kds od = Some doc \<Longrightarrow> doc \<noteq> []"
  by (auto simp add: buildFoodKOTEscPos_def CMD_INIT_def ESC_def split: if_splits)

lemma coffee_Some_nonempty:
  "buildCoffeeKOTEscPos rt orderId kot_code kds od = Some doc \<Longrightarrow> doc \<noteq> []"
  by (auto simp add: buildCoffeeKOTEscPos_def CMD_INIT_def ESC_def split: if_splits)

text \<open>
  C1. The Food Ticket builder returns null exactly when no item of
  \<open>orderDetails.items\<close> (an absent list counting as empty) has a \<open>categoryId\<close> other
  than the coffee category constant, and the Coffee Ticket builder returns null exactly
  when no item has that constant as its \<open>categoryId\<close>. In every other case the builder
  returns a document, and the document is not the empty string. The order id and the
  ticket code are strings, as the data model has them.
\<close>

theorem ticket_null_iff:
  "(buildFoodKOTEscPos rt orderId kot_code kds od = None \<longleftrightarrow>
      \<not> (\<exists>i \<in> set (itemsOrEmpty od). categoryId i \<noteq> JStr COFFEE_CATEGORY_ID))
   \<and> (buildCoffeeKOTEscPos rt orderId kot_code kds od = None \<longleftrightarrow>
      \<not> (\<exists>i \<in> set (itemsOrEmpty od). categoryId i = JStr COFFEE_CATEGORY_ID))
   \<and> ((\<exists>i \<in> set (itemsOrEmpty od). categoryId i \<noteq> JStr COFFEE_CATEGORY_ID) \<longrightarrow>
      (\<exists>doc. buildFoodKOTEscPos rt orderId kot_code kds od = Some doc \<and> doc \<noteq> []))
   \<and> ((\<exists>i \<in> set (itemsOrEmpty od). categoryId i = JStr COFFEE_CATEGORY_ID) \<longrightarrow>
      (\<exists>doc. buildCoffeeKOTEscPos rt orderId kot_code kds od = Some doc \<and> doc \<noteq> []))"
proof -
  have f: "buildFoodKOTEscPos rt orderId kot_code kds od = None \<longleftrightarrow>
      \<not> (\<exists>i \<in> set (itemsOrEmpty od). categoryId i \<noteq> JStr COFFEE_CATEGORY_ID)"
    using food_None_iff foodItems_empty_iff by simp
  have c: "buildCoffeeKOTEscPos rt orderId kot_code kds od = None \<longleftrightarrow>
      \<not> (\<exists>i \<in> set (itemsOrEmpty od). categoryId i = JStr COFFEE_CATEGORY_ID)"
    using coffee_None_iff coffeeItems_empty_iff by simp
  have f': "\<exists>doc. buildFoodKOTEscPos rt orderId kot_code kds od = Some doc \<and> doc \<noteq> []"
    if "\<exists>i \<in> set (itemsOrEmpty od). categoryId i \<noteq> JStr COFFEE_CATEGORY_ID"
  proof -
    from that f obtain doc where "buildFoodKOTEscPos rt orderId kot_code kds od = Some doc"
      by auto
    then show ?thesis using food_Some_nonempty by blast
  qed
  have c': "\<exists>doc. buildCoffeeKOTEscPos rt orderId kot_code kds od = Some doc \<and> doc \<noteq> []"
    if "\<exists>i \<in> set (itemsOrEmpty od). categoryId i = JStr COFFEE_CATEGORY_ID"
  proof -
    from that c obtain doc where "buildCoffeeKOTEscPos rt orderId kot_code kds od = Some doc"
      by auto
    then show ?thesis using coffee_Some_nonempty by blast
  qed
  from f c f' c' show ?thesis by blast
qed

lemma example_items: "itemsOrEmpty example_order = [idli, filter_coffee]"
  by (simp add: itemsOrEmpty_def example_order_def)

lemma coffee_only_items: "itemsOrEmpty coffee_only_order = [filter_coffee]"
  by (simp add: itemsOrEmpty_def coffee_only_order_def)

lemma idli_category: "categoryId idli \<noteq> JStr COFFEE_CATEGORY_ID"
  by (simp add: idli_def COFFEE_CATEGORY_ID_def)

lemma filter_coffee_category: "categoryId filter_coffee = JStr COFFEE_CATEGORY_ID"
  by (simp add: filter_coffee_def)

theorem ticket_null_iff_witness:
  "buildFoodKOTEscPos example_runtime ''ORD-123456789'' ''KOT-42'' JUndefined example_order \<noteq> None
   \<and> buildCoffeeKOTEscPos example_runtime ''ORD-123456789'' ''KOT-42'' JUndefined example_order
       \<noteq> None
   \<and> buildFoodKOTEscPos example_runtime ''ORD-123456789'' ''KOT-42'' JUndefined coffee_only_order
       = None
   \<and> buildCoffeeKOTEscPos example_runtime ''ORD-123456789'' ''KOT-42'' JUndefined
       coffee_only_order \<noteq> None"
  using
    ticket_null_iff [of example_runtime "''ORD-123456789''" "''KOT-42''" JUndefined example_order]
    ticket_null_iff [of example_runtime "''ORD-123456789''" "''KOT-42''" JUndefined
      coffee_only_order]
  by (simp add: example_items coffee_only_items idli_category filter_coffee_category)

text \<open>
  C4. Every item of \<open>orderDetails.items\<close> is in exactly one of the two filtered lists:
  in the Coffee Ticket builder's list when its \<open>categoryId\<close> is the string of the coffee
  category constant, and in the Food Ticket builder's list when it is anything else.
  The two lists together have as many entries as \<open>orderDetails.items\<close>, so an item that
  occurs twice is counted twice on its side. The test is equality of the value as it
  stands: nothing is trimmed or case-folded.
\<close>

theorem item_partition:
  "(\<forall>i \<in> set (itemsOrEmpty od). (i \<in> set (foodItems od)) \<noteq> (i \<in> set (coffeeItems od)))
   \<and> (\<forall>i \<in> set (itemsOrEmpty od).
        i \<in> set (coffeeItems od) \<longleftrightarrow> categoryId i = JStr COFFEE_CATEGORY_ID)
   \<and> (\<forall>i \<in> set (itemsOrEmpty od).
        i \<in> set (foodItems od) \<longleftrightarrow> categoryId i \<noteq> JStr COFFEE_CATEGORY_ID)
   \<and> set (foodItems od) \<union> set (coffeeItems od) = set (itemsOrEmpty od)
   \<and> set (foodItems od) \<inter> set (coffeeItems od) = {}
   \<and> length (foodItems od) + length (coffeeItems od) = length (itemsOrEmpty od)"
proof -
  have len: "length (foodItems od) + length (coffeeItems od) = length (itemsOrEmpty od)"
    unfolding foodItems_def coffeeItems_def
    using sum_length_filter_compl
      [of "\<lambda>item. categoryId item = JStr COFFEE_CATEGORY_ID" "itemsOrEmpty od"]
    by simp
  show ?thesis using len by (auto simp add: foodItems_def coffeeItems_def)
qed

lemma upper_case_items: "itemsOrEmpty upper_case_order = [upper_case_coffee]"
  by (simp add: itemsOrEmpty_def upper_case_order_def)

lemma upper_case_category: "categoryId upper_case_coffee \<noteq> JStr COFFEE_CATEGORY_ID"
  by (simp add: upper_case_coffee_def COFFEE_CATEGORY_ID_def)

theorem item_partition_witness:
  "idli \<in> set (foodItems example_order) \<and> idli \<notin> set (coffeeItems example_order)
   \<and> filter_coffee \<in> set (coffeeItems example_order)
   \<and> filter_coffee \<notin> set (foodItems example_order)
   \<and> length (foodItems example_order) + length (coffeeItems example_order) = 2
   \<and> upper_case_coffee \<in> set (foodItems upper_case_order)
   \<and> upper_case_coffee \<notin> set (coffeeItems upper_case_order)"
  using item_partition [of example_order] item_partition [of upper_case_order]
  by (simp add: example_items idli_category filter_coffee_category upper_case_items
      upper_case_category)

subsection \<open>Evaluating examples\<close>

lemma replicate_numeral_Cons: "replicate (numeral v) x = x # replicate (numeral v - 1) x"
  by (simp add: numeral_eq_Suc)

lemma nat_floor_half: "nat \<lfloor>(of_nat k :: rat) + 1 / 2\<rfloor> = k"
proof -
  have "\<lfloor>(of_nat k :: rat) + 1 / 2\<rfloor> = int k"
    by (rule floor_unique) simp_all
  then show ?thesis by simp
qed

text \<open>
  When \<open>|q| * 10^f\<close> is a natural number \<open>k\<close>, the digits of \<open>toFixed\<close> are those of
  \<open>k\<close>.
\<close>

lemma fixed_digits_exact:
  assumes "\<bar>q\<bar> * 10 ^ f = of_nat k"
  shows "fixed_digits f q =
    (if q < 0 then ''-'' else '''')
    @ (if f = 0 then dec_digits k
       else
         (let m' = (if length (dec_digits k) \<le> f
                    then replicate (f + 1 - length (dec_digits k)) CHR ''0'' @ dec_digits k
                    else dec_digits k)
          in take (length m' - f) m' @ ''.'' @ drop (length m' - f) m'))"
  unfolding fixed_digits_def assms nat_floor_half by (simp add: Let_def)

lemma dec_digits_small: "n < 10 \<Longrightarrow> dec_digits n = [digit_char n]"
  by (subst dec_digits.simps) simp

lemma dec_digits_examples:
  "dec_digits 110 = ''110''"
  "dec_digits 500 = ''500''"
  "dec_digits 2000 = ''2000''"
  "dec_digits 8000 = ''8000''"
  "dec_digits 10000 = ''10000''"
  "dec_digits 10000000000 = ''10000000000''"
  by (simp_all add: dec_digits.simps digit_char_def)

lemma toFixed_examples:
  "toFixed rt 2 (Fin 100) = ''100.00''"
  "toFixed rt 2 (Fin 80) = ''80.00''"
  "toFixed rt 2 (Fin 20) = ''20.00''"
  "toFixed rt 2 (Fin 5) = ''5.00''"
  "toFixed rt 0 (Fin 110) = ''110''"
  "toFixed rt 2 (Fin 100000000) = ''100000000.00''"
  by (simp_all add: toFixed_def dec_digits_examples
      fixed_digits_exact [of 100 2 10000] fixed_digits_exact [of 80 2 8000]
      fixed_digits_exact [of 20 2 2000] fixed_digits_exact [of 5 2 500]
      fixed_digits_exact [of 110 0 110] fixed_digits_exact [of 100000000 2 10000000000])

lemma numberToString_examples:
  "numberToString rt (Fin 1) = ''1''"
  "numberToString rt (Fin 2) = ''2''"
  by (simp_all add: numberToString_def dec_digits_small digit_char_def)

lemma example_totals:
  "bill_totals example_runtime example_order =
     Inr (''Subtotal:                      Rs 100.00\<newline>''
          @ ''CGST 2.5%:                         +5.00\<newline>''
          @ ''SGST 2.5%:                         +5.00\<newline>''
          @ dashes @ CMD_BOLD_ON @ CMD_DOUBLE_HEIGHT
          @ ''TOTAL:                            Rs 110\<newline>''
          @ CMD_NORMAL_TEXT @ CMD_BOLD_OFF @ dashes)"
  by (simp add: bill_totals_def call_toFixed_def toNumber_def num_half_def example_order_def
      example_runtime_def toFixed_examples twoCol_gap replicate_numeral_Cons)

lemma example_rows:
  "bill_item_row example_runtime idli = ''Idli                  2         Rs 80.00\<newline>''"
  "bill_item_row example_runtime filter_coffee =
     ''Filter Coffee         1         Rs 20.00\<newline>'' @ ''  + Less sugar\<newline>''
     @ ''  + Strong\<newline>''"
  by (simp_all add: bill_item_row_def idli_def filter_coffee_def toNumber_def num_mul_def
      example_runtime_def toFixed_examples toStr_def numberToString_examples padEnd_def
      padStart_def customization_lines_def customization_text_def truthy_def
      replicate_numeral_Cons)

lemma example_info:
  "bill_info example_runtime ''ORD-123456789'' JUndefined example_order JUndefined =
     CMD_ALIGN_LEFT @ ''BILL NO : ORD-123456789\<newline>''
     @ ''DATE    : 02/11/2026  10:30 PM\<newline>''
     @ ''TYPE    : TAKEAWAY\<newline>''
     @ ''KIOSK   : KTR1\<newline>'' @ dashes"
  by (simp add: bill_info_def truthy_def js_or_def toStr_def getDateTime_def example_order_def
      example_runtime_def)

lemmas CMD_defs =
  ESC_def GS_def CMD_INIT_def CMD_ALIGN_LEFT_def CMD_ALIGN_CENTER_def CMD_ALIGN_RIGHT_def
  CMD_BOLD_ON_def CMD_BOLD_OFF_def CMD_DOUBLE_HEIGHT_def CMD_DOUBLE_BOTH_def
  CMD_NORMAL_TEXT_def CMD_CUT_def CMD_FEED3_def dashes_def

lemma example_bill_built:
  "buildBillEscPos example_runtime ''ORD-123456789'' ''KOT-42'' JUndefined example_order
     JUndefined JUndefined = Inr example_bill"
  by (simp add: buildBillEscPos_def example_totals example_info bill_items_def example_items
      example_rows bill_header_def bill_kot_code_def bill_items_header_def bill_footer_def
      padEnd_def padStart_def replicate_numeral_Cons example_bill_def CMD_defs)

lemma example_kot_parts:
  "kot_token ''KOT-42'' =
     CMD_ALIGN_CENTER @ CMD_DOUBLE_BOTH @ ''42\<newline>'' @ CMD_NORMAL_TEXT @ ''KOT: KOT-42\<newline>''
     @ dashes"
  "kot_order_info example_runtime ''ORD-123456789'' example_order =
     CMD_ALIGN_LEFT @ ''BILL TYPE : TAKEAWAY\<newline>'' @ ''BILL NO   : KTR-123456\<newline>''
     @ ''DATE/TIME : 02/11/2026  10:30 PM\<newline>'' @ ''KIOSK     : KTR1\<newline>'' @ dashes"
  "kot_item_row example_runtime idli = ''2    Idli\<newline>''"
  "kot_item_row example_runtime filter_coffee =
     ''1    Filter Coffee\<newline>'' @ ''       + Less sugar\<newline>'' @ ''       + Strong\<newline>''"
  by (simp_all add: kot_token_def kot_order_info_def kot_item_row_def slice_from_def slice_def
      js_or_def truthy_def toStr_def getDateTime_def example_order_def example_runtime_def
      idli_def filter_coffee_def numberToString_examples padEnd_def customization_lines_def
      customization_text_def replicate_numeral_Cons)

lemma example_filtered:
  "foodItems example_order = [idli]"
  "coffeeItems example_order = [filter_coffee]"
  by (simp_all add: foodItems_def coffeeItems_def example_items idli_category
      filter_coffee_category)

lemma example_food_kot_built:
  "buildFoodKOTEscPos example_runtime ''ORD-123456789'' ''KOT-42'' JUndefined example_order
     = Some example_food_kot"
  by (simp add: buildFoodKOTEscPos_def example_filtered example_kot_parts example_food_kot_def
      CMD_defs)

lemma example_coffee_kot_built:
  "buildCoffeeKOTEscPos example_runtime ''ORD-123456789'' ''KOT-42'' JUndefined example_order
     = Some example_coffee_kot"
  by (simp add: buildCoffeeKOTEscPos_def example_filtered example_kot_parts
      example_coffee_kot_def CMD_defs)

subsection \<open>Malformed numeric fields in the Bill\<close>

lemma bill_totals_Inr_iff:
  "(\<exists>t. bill_totals rt od = Inr t) \<longleftrightarrow> (\<exists>s t. subtotal od = JNum s \<and> total od = JNum t)"
  by (auto simp add: bill_totals_def call_toFixed_def Let_def split: jsval.splits)

lemma buildBill_Inr_iff:
  "(\<exists>doc. buildBillEscPos rt orderId kot_code kds od orderType td = Inr doc) \<longleftrightarrow>
     (\<exists>s t. subtotal od = JNum s \<and> total od = JNum t)"
proof -
  have "(\<exists>doc. buildBillEscPos rt orderId kot_code kds od orderType td = Inr doc) \<longleftrightarrow>
      (\<exists>t. bill_totals rt od = Inr t)"
    by (auto simp add: buildBillEscPos_def split: sum.splits)
  then show ?thesis by (simp add: bill_totals_Inr_iff)
qed

lemma buildBill_cases:
  "buildBillEscPos rt orderId kot_code kds od orderType td = Inl TypeError
   \<or> (\<exists>doc. buildBillEscPos rt orderId kot_code kds od orderType td = Inr doc)"
proof (cases "buildBillEscPos rt orderId kot_code kds od orderType td")
  case (Inl e)
  then show ?thesis by (cases e) simp
next
  case (Inr doc)
  then show ?thesis by simp
qed

lemma item_row_NaN:
  assumes "price item = JUndefined \<or> quantity item = JUndefined"
  shows "bill_item_row rt item =
      padEnd (toStr rt (itemName item)) 22 @ padEnd (toStr rt (quantity item)) 4
      @ ''        Rs NaN\<newline>'' @ customization_lines rt ''  + '' item"
proof -
  have "num_mul rt (toNumber rt (price item)) (toNumber rt (quantity item)) = NaN"
    using assms by (auto simp add: num_mul_def toNumber_def)
  then show ?thesis
    by (simp add: bill_item_row_def Let_def toFixed_def padStart_def replicate_numeral_Cons)
qed

text \<open>
  C2, as the code has it. The Bill builder returns a document exactly when
  \<open>orderDetails.subtotal\<close> and \<open>orderDetails.total\<close> are numbers, whatever the
  price, the quantity and the tax are, and throws a \<open>TypeError\<close> otherwise, since
  \<open>toFixed\<close> is called on those two fields as they are. \<open>price\<close>, \<open>quantity\<close> and
  \<open>tax\<close> go through arithmetic first, so there a missing or non-numeric value never
  throws, and the text may be garbled: a row whose price or quantity is \<open>undefined\<close>
  shows the amount \<open>Rs NaN\<close>, and an \<open>undefined\<close> tax shows \<open>+NaN\<close> in both tax
  rows.
\<close>

theorem bill_numeric_fields:
  "(buildBillEscPos rt orderId kot_code kds od orderType td = Inl TypeError \<longleftrightarrow>
      \<not> (\<exists>s t. subtotal od = JNum s \<and> total od = JNum t))
   \<and> ((\<exists>s t. subtotal od = JNum s \<and> total od = JNum t) \<longrightarrow>
      (\<exists>doc. buildBillEscPos rt orderId kot_code kds od orderType td = Inr doc))
   \<and> (price item = JUndefined \<or> quantity item = JUndefined \<longrightarrow>
      bill_item_row rt item =
        padEnd (toStr rt (itemName item)) 22 @ padEnd (toStr rt (quantity item)) 4
        @ ''        Rs NaN\<newline>'' @ customization_lines rt ''  + '' item)
   \<and> (subtotal od = JNum s \<and> total od = JNum t \<and> tax od = JUndefined \<longrightarrow>
      bill_totals rt od =
        Inr (twoCol ''Subtotal:'' (''Rs '' @ toFixed rt 2 s) 40
             @ twoCol ''CGST 2.5%:'' ''+NaN'' 40
             @ twoCol ''SGST 2.5%:'' ''+NaN'' 40
             @ dashes @ CMD_BOLD_ON @ CMD_DOUBLE_HEIGHT
             @ twoCol ''TOTAL:'' (''Rs '' @ toFixed rt 0 t) 40
             @ CMD_NORMAL_TEXT @ CMD_BOLD_OFF @ dashes))"
proof -
  have ok: "(\<exists>doc. buildBillEscPos rt orderId kot_code kds od orderType td = Inr doc)"
    if "\<exists>s t. subtotal od = JNum s \<and> total od = JNum t"
    using that buildBill_Inr_iff by blast
  have err: "buildBillEscPos rt orderId kot_code kds od orderType td = Inl TypeError \<longleftrightarrow>
      \<not> (\<exists>s t. subtotal od = JNum s \<and> total od = JNum t)"
  proof
    assume "buildBillEscPos rt orderId kot_code kds od orderType td = Inl TypeError"
    then have "\<not> (\<exists>doc. buildBillEscPos rt orderId kot_code kds od orderType td = Inr doc)"
      by simp
    then show "\<not> (\<exists>s t. subtotal od = JNum s \<and> total od = JNum t)"
      using buildBill_Inr_iff by blast
  next
    assume "\<not> (\<exists>s t. subtotal od = JNum s \<and> total od = JNum t)"
    then have "\<not> (\<exists>doc. buildBillEscPos rt orderId kot_code kds od orderType td = Inr doc)"
      using buildBill_Inr_iff by blast
    then show "buildBillEscPos rt orderId kot_code kds od orderType td = Inl TypeError"
      using buildBill_cases by blast
  qed
  have tax_rows: "bill_totals rt od =
        Inr (twoCol ''Subtotal:'' (''Rs '' @ toFixed rt 2 s) 40
             @ twoCol ''CGST 2.5%:'' ''+NaN'' 40
             @ twoCol ''SGST 2.5%:'' ''+NaN'' 40
             @ dashes @ CMD_BOLD_ON @ CMD_DOUBLE_HEIGHT
             @ twoCol ''TOTAL:'' (''Rs '' @ toFixed rt 0 t) 40
             @ CMD_NORMAL_TEXT @ CMD_BOLD_OFF @ dashes)"
    if "subtotal od = JNum s \<and> total od = JNum t \<and> tax od = JUndefined"
    using that
    by (simp add: bill_totals_def call_toFixed_def Let_def toNumber_def num_half_def
        toFixed_def)
  from ok err item_row_NaN tax_rows show ?thesis by blast
qed

theorem bill_numeric_fields_witness:
  "(\<exists>doc. buildBillEscPos example_runtime ''ORD-123456789'' ''KOT-42'' JUndefined garbled_order
       JUndefined JUndefined = Inr doc)
   \<and> bill_item_row example_runtime unpriced_idli =
       ''Idli                  2           Rs NaN\<newline>''
   \<and> bill_totals example_runtime garbled_order =
        Inr (''Subtotal:                      Rs 100.00\<newline>''
             @ ''CGST 2.5%:                          +NaN\<newline>''
             @ ''SGST 2.5%:                          +NaN\<newline>''
             @ dashes @ CMD_BOLD_ON @ CMD_DOUBLE_HEIGHT
             @ ''TOTAL:                            Rs 110\<newline>''
             @ CMD_NORMAL_TEXT @ CMD_BOLD_OFF @ dashes)"
proof -
  note inst = bill_numeric_fields [where rt = example_runtime and orderId = "''ORD-123456789''"
      and kot_code = "''KOT-42''" and kds = JUndefined and od = garbled_order
      and orderType = JUndefined and td = JUndefined and item = unpriced_idli
      and s = "Fin 100" and t = "Fin 110"]
  have fields: "subtotal garbled_order = JNum (Fin 100) \<and> total garbled_order = JNum (Fin 110)
      \<and> tax garbled_order = JUndefined"
    by (simp add: garbled_order_def example_order_def)
  then have numbers: "\<exists>s t. subtotal garbled_order = JNum s \<and> total garbled_order = JNum t"
    by blast
  have unpriced: "price unpriced_idli = JUndefined \<or> quantity unpriced_idli = JUndefined"
    by (simp add: unpriced_idli_def)
  have built: "\<exists>doc. buildBillEscPos example_runtime ''ORD-123456789'' ''KOT-42'' JUndefined
      garbled_order JUndefined JUndefined = Inr doc"
    using inst numbers by blast
  have "bill_item_row example_runtime unpriced_idli =
      padEnd (toStr example_runtime (itemName unpriced_idli)) 22
      @ padEnd (toStr example_runtime (quantity unpriced_idli)) 4
      @ ''        Rs NaN\<newline>'' @ customization_lines example_runtime ''  + '' unpriced_idli"
    using inst unpriced by blast
  then have row: "bill_item_row example_runtime unpriced_idli =
      ''Idli                  2           Rs NaN\<newline>''"
    by (simp add: unpriced_idli_def idli_def padEnd_def toStr_def numberToString_examples
        customization_lines_def replicate_numeral_Cons)
  have "bill_totals example_runtime garbled_order =
        Inr (twoCol ''Subtotal:'' (''Rs '' @ toFixed example_runtime 2 (Fin 100)) 40
             @ twoCol ''CGST 2.5%:'' ''+NaN'' 40
             @ twoCol ''SGST 2.5%:'' ''+NaN'' 40
             @ dashes @ CMD_BOLD_ON @ CMD_DOUBLE_HEIGHT
             @ twoCol ''TOTAL:'' (''Rs '' @ toFixed example_runtime 0 (Fin 110)) 40
             @ CMD_NORMAL_TEXT @ CMD_BOLD_OFF @ dashes)"
    using inst fields by blast
  then have rows: "bill_totals example_runtime garbled_order =
        Inr (''Subtotal:                      Rs 100.00\<newline>''
             @ ''CGST 2.5%:                          +NaN\<newline>''
             @ ''SGST 2.5%:                          +NaN\<newline>''
             @ dashes @ CMD_BOLD_ON @ CMD_DOUBLE_HEIGHT
             @ ''TOTAL:                            Rs 110\<newline>''
             @ CMD_NORMAL_TEXT @ CMD_BOLD_OFF @ dashes)"
    by (simp add: toFixed_examples twoCol_gap replicate_numeral_Cons)
  from built row rows show ?thesis by blast
qed

text \<open>
  The claim as stated fails for a missing subtotal, where reading \<open>toFixed\<close> of
  \<open>undefined\<close> throws, and for a total that is a string, which has no \<open>toFixed\<close>.
\<close>

theorem bill_missing_subtotal_throws:
  "buildBillEscPos example_runtime ''ORD-123456789'' ''KOT-42'' JUndefined no_subtotal_order
     JUndefined JUndefined = Inl TypeError
   \<and> buildBillEscPos example_runtime ''ORD-123456789'' ''KOT-42'' JUndefined text_total_order
     JUndefined JUndefined = Inl TypeError"
  by (simp add: buildBillEscPos_def bill_totals_def call_toFixed_def no_subtotal_order_def
      text_total_order_def example_order_def)

subsection \<open>The frame of a document\<close>

lemma bill_header_init: "\<exists>rest. bill_header = CMD_INIT @ rest"
  by (simp add: bill_header_def)

lemma frame_chars:
  "CMD_INIT @ body @ CMD_FEED3 @ CMD_CUT =
     [CHR 0x1B, CHR ''@''] @ body
     @ [CHR ''\<newline>'', CHR ''\<newline>'', CHR ''\<newline>'', CHR 0x1D, CHR ''V'', CHR 0x41, CHR 0x00]"
  by (simp add: CMD_INIT_def CMD_FEED3_def CMD_CUT_def ESC_def GS_def)

lemma bill_frame:
  assumes "buildBillEscPos rt orderId kot_code kds od orderType td = Inr doc"
  shows "\<exists>body. doc = CMD_INIT @ body @ CMD_FEED3 @ CMD_CUT"
proof -
  from assms obtain totals where doc:
    "doc = bill_header @ bill_kot_code kot_code @ bill_info rt orderId kds od orderType
       @ bill_items_header @ bill_items rt od @ totals @ bill_footer @ CMD_FEED3 @ CMD_CUT"
    by (auto simp add: buildBillEscPos_def split: sum.splits)
  obtain rest where "bill_header = CMD_INIT @ rest"
    using bill_header_init by blast
  with doc have "doc = CMD_INIT
      @ (rest @ bill_kot_code kot_code @ bill_info rt orderId kds od orderType
         @ bill_items_header @ bill_items rt od @ totals @ bill_footer)
      @ CMD_FEED3 @ CMD_CUT"
    by simp
  then show ?thesis by blast
qed

lemma food_frame:
  assumes "buildFoodKOTEscPos rt orderId kot_code kds od = Some doc"
  shows "\<exists>body. doc = CMD_INIT @ body @ CMD_FEED3 @ CMD_CUT"
proof -
  from assms have "doc = CMD_INIT
      @ (CMD_ALIGN_CENTER @ CMD_BOLD_ON @ ''Karnataka Tiffin Room (Versova)\<newline>''
         @ CMD_BOLD_OFF @ ''*** FOOD KOT ***\<newline>'' @ dashes @ kot_token kot_code
         @ kot_order_info rt orderId od @ CMD_BOLD_ON @ ''QTY  ITEM\<newline>'' @ CMD_BOLD_OFF
         @ dashes @ concat (map (kot_item_row rt) (foodItems od)) @ dashes
         @ ''Instruction:\<newline>'' @ ''\<newline>'')
      @ CMD_FEED3 @ CMD_CUT"
    by (auto simp add: buildFoodKOTEscPos_def split: if_splits)
  then show ?thesis by blast
qed

lemma coffee_frame:
  assumes "buildCoffeeKOTEscPos rt orderId kot_code kds od = Some doc"
  shows "\<exists>body. doc = CMD_INIT @ body @ CMD_FEED3 @ CMD_CUT"
proof -
  from assms have "doc = CMD_INIT
      @ (CMD_ALIGN_CENTER @ CMD_BOLD_ON @ ''Karnataka Tiffin Room (Versova)\<newline>''
         @ CMD_BOLD_OFF @ ''*** COFFEE KOT ***\<newline>'' @ ''--- COFFEE COUNTER ---\<newline>''
         @ dashes @ kot_token kot_code
         @ kot_order_info rt orderId od @ CMD_BOLD_ON @ ''QTY  COFFEE ITEM\<newline>''
         @ CMD_BOLD_OFF
         @ dashes @ concat (map (kot_item_row rt) (coffeeItems od)) @ dashes
         @ ''Instruction: COFFEE COUNTER\<newline>'' @ ''\<newline>'')
      @ CMD_FEED3 @ CMD_CUT"
    by (auto simp add: buildCoffeeKOTEscPos_def split: if_splits)
  then show ?thesis by blast
qed

text \<open>
  C8. Every document that one of the three builders returns starts with the reset
  sequence ESC \<open>@\<close> and ends with three line feeds followed by the cut sequence
  GS \<open>V\<close> 0x41 0x00.
\<close>

theorem document_frame:
  "(buildBillEscPos rt orderId kot_code kds od orderType td = Inr doc \<longrightarrow>
      (\<exists>body. doc = [CHR 0x1B, CHR ''@''] @ body
         @ [CHR ''\<newline>'', CHR ''\<newline>'', CHR ''\<newline>'', CHR 0x1D, CHR ''V'', CHR 0x41, CHR 0x00]))
   \<and> (buildFoodKOTEscPos rt orderId kot_code kds od = Some doc \<longrightarrow>
      (\<exists>body. doc = [CHR 0x1B, CHR ''@''] @ body
         @ [CHR ''\<newline>'', CHR ''\<newline>'', CHR ''\<newline>'', CHR 0x1D, CHR ''V'', CHR 0x41, CHR 0x00]))
   \<and> (buildCoffeeKOTEscPos rt orderId kot_code kds od = Some doc \<longrightarrow>
      (\<exists>body. doc = [CHR 0x1B, CHR ''@''] @ body
         @ [CHR ''\<newline>'', CHR ''\<newline>'', CHR ''\<newline>'', CHR 0x1D, CHR ''V'', CHR 0x41, CHR 0x00]))"
  using bill_frame [of rt orderId kot_code kds od orderType td doc]
    food_frame [of rt orderId kot_code kds od doc]
    coffee_frame [of rt orderId kot_code kds od doc]
  by (metis frame_chars)


theorem document_frame_witness:
  "buildBillEscPos example_runtime ''ORD-123456789'' ''KOT-42'' JUndefined example_order
     JUndefined JUndefined = Inr example_bill
   \<and> (\<exists>body. example_bill = [CHR 0x1B, CHR ''@''] @ body
         @ [CHR ''\<newline>'', CHR ''\<newline>'', CHR ''\<newline>'', CHR 0x1D, CHR ''V'', CHR 0x41, CHR 0x00])
   \<and> buildFoodKOTEscPos example_runtime ''ORD-123456789'' ''KOT-42'' JUndefined example_order
       = Some example_food_kot
   \<and> (\<exists>body. example_food_kot = [CHR 0x1B, CHR ''@''] @ body
         @ [CHR ''\<newline>'', CHR ''\<newline>'', CHR ''\<newline>'', CHR 0x1D, CHR ''V'', CHR 0x41, CHR 0x00])
   \<and> buildCoffeeKOTEscPos example_runtime ''ORD-123456789'' ''KOT-42'' JUndefined example_order
       = Some example_coffee_kot
   \<and> (\<exists>body. example_coffee_kot = [CHR 0x1B, CHR ''@''] @ body
         @ [CHR ''\<newline>'', CHR ''\<newline>'', CHR ''\<newline>'', CHR 0x1D, CHR ''V'', CHR 0x41, CHR 0x00])"
  using
    document_frame [of example_runtime "''ORD-123456789''" "''KOT-42''" JUndefined example_order
      JUndefined JUndefined example_bill]
    document_frame [of example_runtime "''ORD-123456789''" "''KOT-42''" JUndefined example_order
      JUndefined JUndefined example_food_kot]
    document_frame [of example_runtime "''ORD-123456789''" "''KOT-42''" JUndefined example_order
      JUndefined JUndefined example_coffee_kot]
    example_bill_built example_food_kot_built example_coffee_kot_built
  by simp

subsection \<open>A missing item list\<close>

lemma bill_totals_items_update: "bill_totals rt (od\<lparr>items := x\<rparr>) = bill_totals rt od"
  by (simp add: bill_totals_def Let_def split: sum.splits)

lemma bill_info_items_update:
  "bill_info rt orderId kds (od\<lparr>items := x\<rparr>) orderType = bill_info rt orderId kds od orderType"
  by (simp add: bill_info_def)

lemma itemsOrEmpty_update: "itemsOrEmpty (od\<lparr>items := Present xs\<rparr>) = xs"
  by (simp add: itemsOrEmpty_def)

lemma itemsOrEmpty_missing:
  "items od = Missing \<or> items od = IsNull \<Longrightarrow> itemsOrEmpty od = []"
  by (auto simp add: itemsOrEmpty_def)

text \<open>
  C10. When \<open>orderDetails.items\<close> is missing (absent, \<open>undefined\<close> or \<open>null\<close>) each
  builder does what it does for the empty list. Both ticket builders return null. The
  Bill builder gives the result it gives for \<open>items = []\<close>; for an order with its
  totals, that is one whose subtotal and total are numbers, it is a document with the
  header, the ticket code, the metadata block, the column header, no item row (the
  separator follows at once), the totals block and the footer.
\<close>

theorem missing_items_as_empty:
  assumes "items od = Missing \<or> items od = IsNull"
  shows "buildFoodKOTEscPos rt orderId kot_code kds od = None
    \<and> buildCoffeeKOTEscPos rt orderId kot_code kds od = None
    \<and> buildBillEscPos rt orderId kot_code kds od orderType td
        = buildBillEscPos rt orderId kot_code kds (od\<lparr>items := Present []\<rparr>) orderType td
    \<and> ((\<exists>s t. subtotal od = JNum s \<and> total od = JNum t) \<longrightarrow>
         (\<exists>totals. bill_totals rt od = Inr totals
            \<and> buildBillEscPos rt orderId kot_code kds od orderType td
                = Inr (bill_header @ bill_kot_code kot_code
                       @ bill_info rt orderId kds od orderType
                       @ bill_items_header @ dashes @ totals @ bill_footer
                       @ CMD_FEED3 @ CMD_CUT)))"
proof -
  have none: "itemsOrEmpty od = []"
    using assms by (rule itemsOrEmpty_missing)
  have food: "buildFoodKOTEscPos rt orderId kot_code kds od = None"
    by (simp add: buildFoodKOTEscPos_def foodItems_def none)
  have coffee: "buildCoffeeKOTEscPos rt orderId kot_code kds od = None"
    by (simp add: buildCoffeeKOTEscPos_def coffeeItems_def none)
  have same: "buildBillEscPos rt orderId kot_code kds od orderType td
      = buildBillEscPos rt orderId kot_code kds (od\<lparr>items := Present []\<rparr>) orderType td"
    by (cases "bill_totals rt od")
      (simp_all add: buildBillEscPos_def bill_totals_items_update bill_info_items_update
        bill_items_def none itemsOrEmpty_update)
  have doc: "\<exists>totals. bill_totals rt od = Inr totals
      \<and> buildBillEscPos rt orderId kot_code kds od orderType td
          = Inr (bill_header @ bill_kot_code kot_code @ bill_info rt orderId kds od orderType
                 @ bill_items_header @ dashes @ totals @ bill_footer @ CMD_FEED3 @ CMD_CUT)"
    if "\<exists>s t. subtotal od = JNum s \<and> total od = JNum t"
  proof -
    from that obtain totals where "bill_totals rt od = Inr totals"
      using bill_totals_Inr_iff by blast
    then show ?thesis
      by (simp add: buildBillEscPos_def bill_items_def none)
  qed
  from food coffee same doc show ?thesis by blast
qed

lemma no_items_totals:
  "bill_totals example_runtime no_items_order = bill_totals example_runtime example_order"
  by (simp add: no_items_order_def bill_totals_items_update)

theorem missing_items_as_empty_witness:
  "buildFoodKOTEscPos example_runtime ''ORD-123456789'' ''KOT-42'' JUndefined no_items_order
     = None
   \<and> buildCoffeeKOTEscPos example_runtime ''ORD-123456789'' ''KOT-42'' JUndefined no_items_order
     = None
   \<and> buildBillEscPos example_runtime ''ORD-123456789'' ''KOT-42'' JUndefined no_items_order
       JUndefined JUndefined
     = Inr (bill_header @ bill_kot_code ''KOT-42''
            @ bill_info example_runtime ''ORD-123456789'' JUndefined no_items_order JUndefined
            @ bill_items_header @ dashes
            @ (''Subtotal:                      Rs 100.00\<newline>''
               @ ''CGST 2.5%:                         +5.00\<newline>''
               @ ''SGST 2.5%:                         +5.00\<newline>''
               @ dashes @ CMD_BOLD_ON @ CMD_DOUBLE_HEIGHT
               @ ''TOTAL:                            Rs 110\<newline>''
               @ CMD_NORMAL_TEXT @ CMD_BOLD_OFF @ dashes)
            @ bill_footer @ CMD_FEED3 @ CMD_CUT)"
proof -
  have missing: "items no_items_order = Missing \<or> items no_items_order = IsNull"
    by (simp add: no_items_order_def)
  have numbers: "\<exists>s t. subtotal no_items_order = JNum s \<and> total no_items_order = JNum t"
    by (simp add: no_items_order_def example_order_def)
  from missing_items_as_empty [OF missing, of example_runtime "''ORD-123456789''" "''KOT-42''"
      JUndefined JUndefined JUndefined] numbers
  show ?thesis
    by (auto simp add: no_items_totals example_totals)
qed

subsection \<open>Order type and kiosk in the Bill\<close>

lemma bill_info_lines:
  "bill_info rt orderId kds od orderType =
     (CMD_ALIGN_LEFT @ ''BILL NO : '' @ orderId @ ''\<newline>''
      @ (if truthy kds then ''KDS ID  : '' @ toStr rt kds @ ''\<newline>'' else [])
      @ ''DATE    : '' @ getDateTime rt @ ''\<newline>'')
     @ ''TYPE    : ''
     @ toStr rt (if truthy orderType then orderType
                 else if truthy (billType od) then billType od else JStr ''DINE IN'')
     @ ''\<newline>''
     @ ''KIOSK   : '' @ toStr rt (if truthy (kiosk od) then kiosk od else JStr ''KTR1'')
     @ ''\<newline>'' @ dashes"
  by (simp add: bill_info_def js_or_def)

lemma js_or_agrees_with_nullish:
  assumes "orderType = JUndefined \<or> orderType = JNull \<or> truthy orderType"
    and "billType od = JUndefined \<or> billType od = JNull \<or> truthy (billType od)"
  shows "js_or orderType (js_or (billType od) (JStr ''DINE IN'')) = spec_order_type orderType od"
  using assms by (auto simp add: js_or_def spec_order_type_def nullish_or_def truthy_def)

lemma bill_contains_info:
  assumes "buildBillEscPos rt orderId kot_code kds od orderType td = Inr doc"
  shows "\<exists>before after. doc = before @ bill_info rt orderId kds od orderType @ after"
proof -
  from assms obtain totals where
    "doc = (bill_header @ bill_kot_code kot_code) @ bill_info rt orderId kds od orderType
       @ (bill_items_header @ bill_items rt od @ totals @ bill_footer @ CMD_FEED3 @ CMD_CUT)"
    by (auto simp add: buildBillEscPos_def split: sum.splits)
  then show ?thesis by blast
qed

text \<open>
  C7, as the code has it. The Bill's TYPE line shows the first truthy value among
  \<open>orderType\<close>, \<open>orderDetails.billType\<close> and \<open>DINE IN\<close>, and its KIOSK line shows
  \<open>orderDetails.kiosk\<close> when that is truthy and \<open>KTR1\<close> otherwise: the source writes
  the chains with \<open>||\<close>. A missing value (\<open>undefined\<close> or \<open>null\<close>) is passed over, and
  so is an empty string, a zero, NaN or \<open>false\<close>. The chain agrees with
  \<open>orderType ?? orderDetails.billType ?? "DINE IN"\<close> whenever \<open>orderType\<close> and
  \<open>billType\<close> are each missing or truthy, and a missing kiosk gives \<open>KTR1\<close>.
\<close>

theorem bill_type_and_kiosk:
  "(buildBillEscPos rt orderId kot_code kds od orderType td = Inr doc \<longrightarrow>
      (\<exists>before after. doc =
         before @ ''TYPE    : ''
         @ toStr rt (if truthy orderType then orderType
                     else if truthy (billType od) then billType od else JStr ''DINE IN'')
         @ ''\<newline>''
         @ ''KIOSK   : '' @ toStr rt (if truthy (kiosk od) then kiosk od else JStr ''KTR1'')
         @ ''\<newline>'' @ after))
   \<and> ((orderType = JUndefined \<or> orderType = JNull \<or> truthy orderType)
        \<and> (billType od = JUndefined \<or> billType od = JNull \<or> truthy (billType od)) \<longrightarrow>
       (if truthy orderType then orderType
        else if truthy (billType od) then billType od else JStr ''DINE IN'')
         = spec_order_type orderType od)
   \<and> (kiosk od = JUndefined \<or> kiosk od = JNull \<longrightarrow>
       (if truthy (kiosk od) then kiosk od else JStr ''KTR1'') = JStr ''KTR1'')"
proof -
  have line: "\<exists>before after. doc =
         before @ ''TYPE    : ''
         @ toStr rt (if truthy orderType then orderType
                     else if truthy (billType od) then billType od else JStr ''DINE IN'')
         @ ''\<newline>''
         @ ''KIOSK   : '' @ toStr rt (if truthy (kiosk od) then kiosk od else JStr ''KTR1'')
         @ ''\<newline>'' @ after"
    if built: "buildBillEscPos rt orderId kot_code kds od orderType td = Inr doc"
  proof -
    from bill_contains_info [OF built] obtain b a where
      "doc = b @ bill_info rt orderId kds od orderType @ a" by blast
    then have "doc =
        (b @ CMD_ALIGN_LEFT @ ''BILL NO : '' @ orderId @ ''\<newline>''
           @ (if truthy kds then ''KDS ID  : '' @ toStr rt kds @ ''\<newline>'' else [])
           @ ''DATE    : '' @ getDateTime rt @ ''\<newline>'')
        @ ''TYPE    : ''
        @ toStr rt (if truthy orderType then orderType
                    else if truthy (billType od) then billType od else JStr ''DINE IN'')
        @ ''\<newline>''
        @ ''KIOSK   : '' @ toStr rt (if truthy (kiosk od) then kiosk od else JStr ''KTR1'')
        @ ''\<newline>'' @ (dashes @ a)"
      by (simp only: bill_info_lines append_assoc)
    then show ?thesis by blast
  qed
  have chain: "(if truthy orderType then orderType
        else if truthy (billType od) then billType od else JStr ''DINE IN'')
         = spec_order_type orderType od"
    if "(orderType = JUndefined \<or> orderType = JNull \<or> truthy orderType)
        \<and> (billType od = JUndefined \<or> billType od = JNull \<or> truthy (billType od))"
    using js_or_agrees_with_nullish [of orderType od] that by (simp add: js_or_def)
  have kiosk: "(if truthy (kiosk od) then kiosk od else JStr ''KTR1'') = JStr ''KTR1''"
    if "kiosk od = JUndefined \<or> kiosk od = JNull"
    using that by (auto simp add: truthy_def)
  from line chain kiosk show ?thesis by blast
qed

theorem bill_type_and_kiosk_witness:
  "buildBillEscPos example_runtime ''ORD-123456789'' ''KOT-42'' JUndefined example_order
     JUndefined JUndefined = Inr example_bill
   \<and> (\<exists>before after. example_bill =
         before @ ''TYPE    : '' @ ''TAKEAWAY'' @ ''\<newline>'' @ ''KIOSK   : '' @ ''KTR1'' @ ''\<newline>''
         @ after)
   \<and> spec_order_type JUndefined example_order = JStr ''TAKEAWAY''"
  using bill_type_and_kiosk [of example_runtime "''ORD-123456789''" "''KOT-42''" JUndefined
      example_order JUndefined JUndefined example_bill]
    example_bill_built
  by (simp add: example_order_def truthy_def toStr_def)

text \<open>
  The claim as stated fails for an empty \<open>orderType\<close>: it is not missing, so the
  \<open>??\<close> chain stops at it, and the Bill shows the bill type instead.
\<close>

theorem empty_order_type_skipped:
  "bill_info example_runtime ''ORD-123456789'' JUndefined example_order (JStr '''') =
     CMD_ALIGN_LEFT @ ''BILL NO : ORD-123456789\<newline>''
     @ ''DATE    : 02/11/2026  10:30 PM\<newline>''
     @ ''TYPE    : TAKEAWAY\<newline>''
     @ ''KIOSK   : KTR1\<newline>'' @ dashes
   \<and> toStr example_runtime (spec_order_type (JStr '''') example_order) = ''''"
  by (simp add: bill_info_def truthy_def js_or_def toStr_def getDateTime_def example_order_def
      example_runtime_def spec_order_type_def nullish_or_def)

subsection \<open>The clock\<close>

text \<open>Nothing but \<open>getDateTime\<close> reads the clock fields of the runtime.\<close>

lemma numberToString_clock [simp]:
  "numberToString (rt\<lparr>localeDate := d, localeTime := t\<rparr>) x = numberToString rt x"
  by (simp add: numberToString_def split: jsnum.splits)

lemma toStr_clock [simp]: "toStr (rt\<lparr>localeDate := d, localeTime := t\<rparr>) v = toStr rt v"
  by (simp add: toStr_def split: jsval.splits)

lemma toNumber_clock [simp]:
  "toNumber (rt\<lparr>localeDate := d, localeTime := t\<rparr>) v = toNumber rt v"
  by (simp add: toNumber_def split: jsval.splits)

lemma toFixed_clock [simp]:
  "toFixed (rt\<lparr>localeDate := d, localeTime := t\<rparr>) f x = toFixed rt f x"
  by (simp add: toFixed_def split: jsnum.splits)

lemma num_mul_clock [simp]:
  "num_mul (rt\<lparr>localeDate := d, localeTime := t\<rparr>) x y = num_mul rt x y"
  by (simp add: num_mul_def split: jsnum.splits prod.splits)

lemma num_half_clock [simp]:
  "num_half (rt\<lparr>localeDate := d, localeTime := t\<rparr>) x = num_half rt x"
  by (simp add: num_half_def split: jsnum.splits)

lemma customization_text_clock [simp]:
  "customization_text (rt\<lparr>localeDate := d, localeTime := t\<rparr>) c = customization_text rt c"
  by (simp add: customization_text_def split: customization.splits)

lemma customization_lines_clock [simp]:
  "customization_lines (rt\<lparr>localeDate := d, localeTime := t\<rparr>) indent item
     = customization_lines rt indent item"
  by (simp add: customization_lines_def split: optional.splits)

lemma bill_item_row_clock [simp]:
  "bill_item_row (rt\<lparr>localeDate := d, localeTime := t\<rparr>) item = bill_item_row rt item"
  by (simp add: bill_item_row_def)

lemma kot_item_row_clock [simp]:
  "kot_item_row (rt\<lparr>localeDate := d, localeTime := t\<rparr>) item = kot_item_row rt item"
  by (simp add: kot_item_row_def)

lemma bill_items_clock [simp]:
  "bill_items (rt\<lparr>localeDate := d, localeTime := t\<rparr>) od = bill_items rt od"
  by (simp add: bill_items_def cong: map_cong)

lemma bill_totals_clock [simp]:
  "bill_totals (rt\<lparr>localeDate := d, localeTime := t\<rparr>) od = bill_totals rt od"
  by (simp add: bill_totals_def call_toFixed_def split: jsval.splits)

lemma getDateTime_clock [simp]:
  "getDateTime (rt\<lparr>localeDate := d, localeTime := t\<rparr>) = d @ ''  '' @ t"
  by (simp add: getDateTime_def)

lemma append_middle_eq: "a @ x @ b = a @ y @ b \<longleftrightarrow> x = y"
  by simp

lemma bill_clock_split:
  assumes "buildBillEscPos rt orderId kot_code kds od orderType td = Inr doc"
  shows "\<exists>before after. \<forall>d t.
     buildBillEscPos (rt\<lparr>localeDate := d, localeTime := t\<rparr>) orderId kot_code kds od orderType td
       = Inr (before @ (d @ ''  '' @ t) @ after)"
proof -
  from assms obtain totals where totals: "bill_totals rt od = Inr totals"
    by (auto simp add: buildBillEscPos_def split: sum.splits)
  let ?before = "bill_header @ bill_kot_code kot_code @ CMD_ALIGN_LEFT
      @ ''BILL NO : '' @ orderId @ ''\<newline>''
      @ (if truthy kds then ''KDS ID  : '' @ toStr rt kds @ ''\<newline>'' else [])
      @ ''DATE    : ''"
  let ?after = "''\<newline>'' @ ''TYPE    : ''
      @ toStr rt (js_or orderType (js_or (billType od) (JStr ''DINE IN''))) @ ''\<newline>''
      @ ''KIOSK   : '' @ toStr rt (js_or (kiosk od) (JStr ''KTR1'')) @ ''\<newline>'' @ dashes
      @ bill_items_header @ bill_items rt od @ totals @ bill_footer @ CMD_FEED3 @ CMD_CUT"
  have "\<forall>d t.
     buildBillEscPos (rt\<lparr>localeDate := d, localeTime := t\<rparr>) orderId kot_code kds od orderType td
       = Inr (?before @ (d @ ''  '' @ t) @ ?after)"
    by (simp add: buildBillEscPos_def totals bill_info_def)
  then show ?thesis by blast
qed

lemma food_clock_split:
  assumes "buildFoodKOTEscPos rt orderId kot_code kds od = Some doc"
  shows "\<exists>before after. \<forall>d t.
     buildFoodKOTEscPos (rt\<lparr>localeDate := d, localeTime := t\<rparr>) orderId kot_code kds od
       = Some (before @ (d @ ''  '' @ t) @ after)"
proof -
  from assms have nonempty: "length (foodItems od) \<noteq> 0"
    by (auto simp add: buildFoodKOTEscPos_def split: if_splits)
  let ?before = "CMD_INIT @ CMD_ALIGN_CENTER @ CMD_BOLD_ON
      @ ''Karnataka Tiffin Room (Versova)\<newline>'' @ CMD_BOLD_OFF @ ''*** FOOD KOT ***\<newline>''
      @ dashes @ kot_token kot_code @ CMD_ALIGN_LEFT
      @ ''BILL TYPE : '' @ toStr rt (js_or (billType od) (JStr ''DINE IN'')) @ ''\<newline>''
      @ ''BILL NO   : KTR-'' @ slice orderId 4 10 @ ''\<newline>'' @ ''DATE/TIME : ''"
  let ?after = "''\<newline>''
      @ ''KIOSK     : '' @ toStr rt (js_or (kiosk od) (JStr ''KTR1'')) @ ''\<newline>'' @ dashes
      @ CMD_BOLD_ON @ ''QTY  ITEM\<newline>'' @ CMD_BOLD_OFF @ dashes
      @ concat (map (kot_item_row rt) (foodItems od)) @ dashes
      @ ''Instruction:\<newline>'' @ ''\<newline>'' @ CMD_FEED3 @ CMD_CUT"
  have "\<forall>d t.
     buildFoodKOTEscPos (rt\<lparr>localeDate := d, localeTime := t\<rparr>) orderId kot_code kds od
       = Some (?before @ (d @ ''  '' @ t) @ ?after)"
    using nonempty by (simp add: buildFoodKOTEscPos_def kot_order_info_def cong: map_cong)
  then show ?thesis by blast
qed

lemma coffee_clock_split:
  assumes "buildCoffeeKOTEscPos rt orderId kot_code kds od = Some doc"
  shows "\<exists>before after. \<forall>d t.
     buildCoffeeKOTEscPos (rt\<lparr>localeDate := d, localeTime := t\<rparr>) orderId kot_code kds od
       = Some (before @ (d @ ''  '' @ t) @ after)"
proof -
  from assms have nonempty: "length (coffeeItems od) \<noteq> 0"
    by (auto simp add: buildCoffeeKOTEscPos_def split: if_splits)
  let ?before = "CMD_INIT @ CMD_ALIGN_CENTER @ CMD_BOLD_ON
      @ ''Karnataka Tiffin Room (Versova)\<newline>'' @ CMD_BOLD_OFF @ ''*** COFFEE KOT ***\<newline>''
      @ ''--- COFFEE COUNTER ---\<newline>''
      @ dashes @ kot_token kot_code @ CMD_ALIGN_LEFT
      @ ''BILL TYPE : '' @ toStr rt (js_or (billType od) (JStr ''DINE IN'')) @ ''\<newline>''
      @ ''BILL NO   : KTR-'' @ slice orderId 4 10 @ ''\<newline>'' @ ''DATE/TIME : ''"
  let ?after = "''\<newline>''
      @ ''KIOSK     : '' @ toStr rt (js_or (kiosk od) (JStr ''KTR1'')) @ ''\<newline>'' @ dashes
      @ CMD_BOLD_ON @ ''QTY  COFFEE ITEM\<newline>'' @ CMD_BOLD_OFF @ dashes
      @ concat (map (kot_item_row rt) (coffeeItems od)) @ dashes
      @ ''Instruction: COFFEE COUNTER\<newline>'' @ ''\<newline>'' @ CMD_FEED3 @ CMD_CUT"
  have "\<forall>d t.
     buildCoffeeKOTEscPos (rt\<lparr>localeDate := d, localeTime := t\<rparr>) orderId kot_code kds od
       = Some (?before @ (d @ ''  '' @ t) @ ?after)"
    using nonempty by (simp add: buildCoffeeKOTEscPos_def kot_order_info_def cong: map_cong)
  then show ?thesis by blast
qed

lemma runtime_clock_id: "rt\<lparr>localeDate := localeDate rt, localeTime := localeTime rt\<rparr> = rt"
  by simp

lemma bill_clock_iff:
  assumes "buildBillEscPos rt orderId kot_code kds od orderType td = Inr doc"
  shows "buildBillEscPos (rt\<lparr>localeDate := d, localeTime := t\<rparr>) orderId kot_code kds od
           orderType td = Inr doc
         \<longleftrightarrow> d @ ''  '' @ t = getDateTime rt"
proof -
  from bill_clock_split [OF assms] obtain b a where split: "\<And>d t.
     buildBillEscPos (rt\<lparr>localeDate := d, localeTime := t\<rparr>) orderId kot_code kds od orderType td
       = Inr (b @ (d @ ''  '' @ t) @ a)"
    by blast
  from split [where d = "localeDate rt" and t = "localeTime rt"] assms
  have doc: "doc = b @ (localeDate rt @ ''  '' @ localeTime rt) @ a"
    by (simp only: runtime_clock_id) simp
  show ?thesis
    unfolding split doc getDateTime_def by (simp only: sum.inject append_middle_eq)
qed

lemma food_clock_iff:
  assumes "buildFoodKOTEscPos rt orderId kot_code kds od = Some doc"
  shows "buildFoodKOTEscPos (rt\<lparr>localeDate := d, localeTime := t\<rparr>) orderId kot_code kds od
           = Some doc
         \<longleftrightarrow> d @ ''  '' @ t = getDateTime rt"
proof -
  from food_clock_split [OF assms] obtain b a where split: "\<And>d t.
     buildFoodKOTEscPos (rt\<lparr>localeDate := d, localeTime := t\<rparr>) orderId kot_code kds od
       = Some (b @ (d @ ''  '' @ t) @ a)"
    by blast
  from split [where d = "localeDate rt" and t = "localeTime rt"] assms
  have doc: "doc = b @ (localeDate rt @ ''  '' @ localeTime rt) @ a"
    by (simp only: runtime_clock_id) simp
  show ?thesis
    unfolding split doc getDateTime_def by (simp only: option.inject append_middle_eq)
qed

lemma coffee_clock_iff:
  assumes "buildCoffeeKOTEscPos rt orderId kot_code kds od = Some doc"
  shows "buildCoffeeKOTEscPos (rt\<lparr>localeDate := d, localeTime := t\<rparr>) orderId kot_code kds od
           = Some doc
         \<longleftrightarrow> d @ ''  '' @ t = getDateTime rt"
proof -
  from coffee_clock_split [OF assms] obtain b a where split: "\<And>d t.
     buildCoffeeKOTEscPos (rt\<lparr>localeDate := d, localeTime := t\<rparr>) orderId kot_code kds od
       = Some (b @ (d @ ''  '' @ t) @ a)"
    by blast
  from split [where d = "localeDate rt" and t = "localeTime rt"] assms
  have doc: "doc = b @ (localeDate rt @ ''  '' @ localeTime rt) @ a"
    by (simp only: runtime_clock_id) simp
  show ?thesis
    unfolding split doc getDateTime_def by (simp only: option.inject append_middle_eq)
qed

text \<open>
  C3, as the code has it. Each builder is a function of its arguments and of the clock:
  \<open>getDateTime\<close> reads the current date and time, and every document prints that
  reading. When a builder returns a document, a second call with the same arguments
  returns the same document exactly when the clock reading \<open>date  time\<close> is the same;
  nothing else of the clock is read.
\<close>

theorem builders_read_clock:
  "(buildBillEscPos rt orderId kot_code kds od orderType td = Inr doc \<longrightarrow>
      (buildBillEscPos (rt\<lparr>localeDate := d, localeTime := t\<rparr>) orderId kot_code kds od
         orderType td = Inr doc
       \<longleftrightarrow> d @ ''  '' @ t = getDateTime rt))
   \<and> (buildFoodKOTEscPos rt orderId kot_code kds od = Some doc \<longrightarrow>
      (buildFoodKOTEscPos (rt\<lparr>localeDate := d, localeTime := t\<rparr>) orderId kot_code kds od
         = Some doc
       \<longleftrightarrow> d @ ''  '' @ t = getDateTime rt))
   \<and> (buildCoffeeKOTEscPos rt orderId kot_code kds od = Some doc \<longrightarrow>
      (buildCoffeeKOTEscPos (rt\<lparr>localeDate := d, localeTime := t\<rparr>) orderId kot_code kds od
         = Some doc
       \<longleftrightarrow> d @ ''  '' @ t = getDateTime rt))"
  apply (intro conjI impI)
    apply (erule bill_clock_iff)
   apply (erule food_clock_iff)
  apply (erule coffee_clock_iff)
  done

lemma later_runtime_eq:
  "later_runtime = example_runtime\<lparr>localeDate := ''02/11/2026'', localeTime := ''10:31 PM''\<rparr>"
  by (simp add: later_runtime_def example_runtime_def)

theorem builders_read_clock_witness:
  "buildBillEscPos example_runtime ''ORD-123456789'' ''KOT-42'' JUndefined example_order
     JUndefined JUndefined = Inr example_bill
   \<and> buildBillEscPos
        (example_runtime\<lparr>localeDate := ''02/11/2026'', localeTime := ''10:30 PM''\<rparr>)
        ''ORD-123456789'' ''KOT-42'' JUndefined example_order JUndefined JUndefined
      = Inr example_bill
   \<and> buildFoodKOTEscPos later_runtime ''ORD-123456789'' ''KOT-42'' JUndefined example_order
      \<noteq> Some example_food_kot"
  using
    builders_read_clock [where rt = example_runtime and orderId = "''ORD-123456789''"
      and kot_code = "''KOT-42''" and kds = JUndefined and od = example_order
      and orderType = JUndefined and td = JUndefined and doc = example_bill
      and d = "''02/11/2026''" and t = "''10:30 PM''"]
    builders_read_clock [where rt = example_runtime and orderId = "''ORD-123456789''"
      and kot_code = "''KOT-42''" and kds = JUndefined and od = example_order
      and orderType = JUndefined and td = JUndefined and doc = example_food_kot
      and d = "''02/11/2026''" and t = "''10:31 PM''"]
    example_bill_built example_food_kot_built
  by (simp add: later_runtime_eq getDateTime_def example_runtime_def)

text \<open>
  The claim as stated fails: the same arguments give another Bill one minute later.
\<close>

theorem bill_differs_a_minute_later:
  "buildBillEscPos example_runtime ''ORD-123456789'' ''KOT-42'' JUndefined example_order
     JUndefined JUndefined
   \<noteq> buildBillEscPos later_runtime ''ORD-123456789'' ''KOT-42'' JUndefined example_order
     JUndefined JUndefined"
  using
    bill_clock_iff [OF example_bill_built, where d = "''02/11/2026''" and t = "''10:31 PM''"]
    example_bill_built
  by (simp add: later_runtime_eq getDateTime_def example_runtime_def)

subsection \<open>Dispatch\<close>










subsection \<open>Decimal places\<close>

lemma digit_char_is_digit: "d < 10 \<Longrightarrow> is_digit (digit_char d)"
proof -
  assume "d < 10"
  then have "d < length ''0123456789''" by simp
  then have "''0123456789'' ! d \<in> set ''0123456789''" by (rule nth_mem)
  then show ?thesis by (simp only: is_digit_def digit_char_def)
qed

lemma dec_digits_digits: "list_all is_digit (dec_digits n)"
proof (induction n rule: dec_digits.induct)
  case (1 n)
  show ?case
  proof (cases "n < 10")
    case True
    then show ?thesis
      by (subst dec_digits.simps) (simp add: digit_char_is_digit)
  next
    case False
    then have "list_all is_digit (dec_digits (n div 10))" by (rule "1.IH")
    moreover have "is_digit (digit_char (n mod 10))" by (rule digit_char_is_digit) simp
    ultimately show ?thesis
      using False by (subst dec_digits.simps) simp
  qed
qed

lemma dec_digits_nonempty: "dec_digits n \<noteq> []"
  by (subst dec_digits.simps) simp

lemma dec_digits_length: "n < 10 ^ k \<Longrightarrow> 1 \<le> k \<Longrightarrow> length (dec_digits n) \<le> k"
proof (induction n arbitrary: k rule: dec_digits.induct)
  case (1 n)
  show ?case
  proof (cases "n < 10")
    case True
    then show ?thesis using "1.prems" by (subst dec_digits.simps) simp
  next
    case False
    from "1.prems" obtain j where k: "k = Suc j" by (cases k) auto
    have "j \<noteq> 0"
    proof
      assume "j = 0"
      with k "1.prems" False show False by simp
    qed
    then have j1: "1 \<le> j" by simp
    from "1.prems" k have "n < 10 * 10 ^ j" by simp
    then have "n div 10 < 10 ^ j" by (simp add: less_mult_imp_div_less mult.commute)
    from "1.IH" [OF False this j1] have "length (dec_digits (n div 10)) \<le> j" .
    then show ?thesis using False k by (subst dec_digits.simps) simp
  qed
qed

lemma fixed_digits_places:
  assumes "0 < f"
  shows "\<exists>ip fp. fixed_digits f q = (if q < 0 then ''-'' else '''') @ ip @ ''.'' @ fp
           \<and> ip \<noteq> [] \<and> list_all is_digit ip \<and> length fp = f \<and> list_all is_digit fp"
proof -
  define m where "m = dec_digits (nat \<lfloor>\<bar>q\<bar> * 10 ^ f + 1 / 2\<rfloor>)"
  define m' where "m' = (if length m \<le> f then replicate (f + 1 - length m) CHR ''0'' @ m else m)"
  have digits_m: "list_all is_digit m"
    unfolding m_def by (rule dec_digits_digits)
  have zero: "is_digit CHR ''0''" by (simp add: is_digit_def)
  have digits: "list_all is_digit m'"
    using digits_m zero by (simp add: m'_def list_all_iff)
  have long: "f + 1 \<le> length m'"
    by (simp add: m'_def)
  have eq: "fixed_digits f q =
      (if q < 0 then ''-'' else '''') @ take (length m' - f) m' @ ''.'' @ drop (length m' - f) m'"
    using assms by (simp add: fixed_digits_def Let_def m_def m'_def)
  have ip: "take (length m' - f) m' \<noteq> []"
    using long by (cases m') auto
  have ip_digits: "list_all is_digit (take (length m' - f) m')"
    using digits by (auto simp add: list_all_iff dest: in_set_takeD)
  have fp: "length (drop (length m' - f) m') = f"
    using long by simp
  have fp_digits: "list_all is_digit (drop (length m' - f) m')"
    using digits by (auto simp add: list_all_iff dest: in_set_dropD)
  from eq ip ip_digits fp fp_digits show ?thesis by blast
qed

lemma fixed_digits_whole:
  "\<exists>ip. fixed_digits 0 q = (if q < 0 then ''-'' else '''') @ ip
         \<and> ip \<noteq> [] \<and> list_all is_digit ip"
proof -
  have "fixed_digits 0 q = (if q < 0 then ''-'' else '''') @ dec_digits (nat \<lfloor>\<bar>q\<bar> + 1 / 2\<rfloor>)"
    by (simp add: fixed_digits_def Let_def)
  then show ?thesis
    using dec_digits_nonempty dec_digits_digits by blast
qed

lemma toFixed_below_limit: "\<bar>q\<bar> < 10 ^ 21 \<Longrightarrow> toFixed rt f (Fin q) = fixed_digits f q"
  by (simp add: toFixed_def)

lemma toFixed_two_places:
  assumes "\<bar>q\<bar> < 10 ^ 21"
  shows "\<exists>ip fp. toFixed rt 2 (Fin q) = (if q < 0 then ''-'' else '''') @ ip @ ''.'' @ fp
           \<and> ip \<noteq> [] \<and> list_all is_digit ip \<and> length fp = 2 \<and> list_all is_digit fp"
  using fixed_digits_places [of 2 q] assms by (simp add: toFixed_below_limit)

lemma toFixed_no_places:
  assumes "\<bar>q\<bar> < 10 ^ 21"
  shows "\<exists>ip. toFixed rt 0 (Fin q) = (if q < 0 then ''-'' else '''') @ ip
           \<and> ip \<noteq> [] \<and> list_all is_digit ip"
  using fixed_digits_whole [of q] assms by (simp add: toFixed_below_limit)

lemma bill_totals_rows:
  assumes "subtotal od = JNum s" and "total od = JNum t"
  shows "bill_totals rt od =
     Inr (twoCol ''Subtotal:'' (''Rs '' @ toFixed rt 2 s) 40
          @ twoCol ''CGST 2.5%:'' (''+'' @ toFixed rt 2 (num_half rt (toNumber rt (tax od)))) 40
          @ twoCol ''SGST 2.5%:'' (''+'' @ toFixed rt 2 (num_half rt (toNumber rt (tax od)))) 40
          @ dashes @ CMD_BOLD_ON @ CMD_DOUBLE_HEIGHT
          @ twoCol ''TOTAL:'' (''Rs '' @ toFixed rt 0 t) 40
          @ CMD_NORMAL_TEXT @ CMD_BOLD_OFF @ dashes)"
  using assms by (simp add: bill_totals_def call_toFixed_def Let_def)

lemma half_of_tax:
  assumes "tax od = JNum (Fin x)" and "round64 rt (x / 2) = Fin (x / 2)"
  shows "num_half rt (toNumber rt (tax od)) = Fin (x / 2)"
  using assms by (simp add: num_half_def toNumber_def)

lemma padStart_keeps:
  "length s \<le> n \<Longrightarrow> padStart s n = replicate (n - length s) CHR '' '' @ s"
  by (simp add: padStart_def)

lemma padStart_cuts: "n \<le> length s \<Longrightarrow> padStart s n = take n s"
  by (simp add: padStart_def)

lemma length_padStart: "length (padStart s n) = n"
  by (simp add: padStart_def)

lemma dec_digits_length_ge: "10 ^ k \<le> n \<Longrightarrow> k + 1 \<le> length (dec_digits n)"
proof (induction n arbitrary: k rule: dec_digits.induct)
  case (1 n)
  show ?case
  proof (cases "n < 10")
    case True
    have "k = 0"
    proof (rule ccontr)
      assume "k \<noteq> 0"
      then obtain j where "k = Suc j" by (cases k) auto
      then have "(10::nat) \<le> 10 ^ k" by simp
      with "1.prems" True show False by simp
    qed
    then show ?thesis using True by (subst dec_digits.simps) simp
  next
    case False
    show ?thesis
    proof (cases k)
      case 0
      then show ?thesis using False by (subst dec_digits.simps) simp
    next
      case (Suc j)
      with "1.prems" have "10 * 10 ^ j \<le> n" by simp
      then have "10 ^ j \<le> n div 10" by simp
      from "1.IH" [OF False this] have "j + 1 \<le> length (dec_digits (n div 10))" .
      then show ?thesis using False Suc by (subst dec_digits.simps) simp
    qed
  qed
qed

lemma nat_floor_less:
  fixes x :: rat
  assumes "0 \<le> x" and "x < of_nat N"
  shows "nat \<lfloor>x\<rfloor> < N"
proof -
  from assms(2) have "x < of_int (int N)" by simp
  then have "\<lfloor>x\<rfloor> < int N" by (simp only: floor_less_iff)
  moreover from assms(1) have "0 \<le> \<lfloor>x\<rfloor>" by (simp only: zero_le_floor)
  ultimately show ?thesis by linarith
qed

lemma nat_floor_ge:
  fixes x :: rat
  assumes "of_nat N \<le> x"
  shows "N \<le> nat \<lfloor>x\<rfloor>"
proof -
  from assms have "of_int (int N) \<le> x" by simp
  then have "int N \<le> \<lfloor>x\<rfloor>" by (simp only: le_floor_iff)
  then show ?thesis by linarith
qed

text \<open>
  The length of \<open>toFixed(2)\<close>: the sign, the digits of the rounded hundredths (at
  least three), and the point.
\<close>

lemma fixed_digits_two_len:
  "length (fixed_digits 2 q) =
     (if q < 0 then 1 else 0) + max (length (dec_digits (nat \<lfloor>\<bar>q\<bar> * 10 ^ 2 + 1 / 2\<rfloor>))) 3 + 1"
proof -
  define m where "m = dec_digits (nat \<lfloor>\<bar>q\<bar> * 10 ^ 2 + 1 / 2\<rfloor>)"
  have "m \<noteq> []" unfolding m_def by (rule dec_digits_nonempty)
  then have pos: "1 \<le> length m" by (cases m) auto
  have "fixed_digits 2 q =
      (if q < 0 then ''-'' else '''')
      @ (let m' = (if length m \<le> 2 then replicate (2 + 1 - length m) CHR ''0'' @ m else m)
         in take (length m' - 2) m' @ ''.'' @ drop (length m' - 2) m')"
    by (simp add: fixed_digits_def Let_def m_def)
  then show ?thesis
    using pos unfolding m_def [symmetric] by (auto simp add: Let_def max_def)
qed

lemma amount_fits:
  assumes "(0 \<le> a \<and> a < 10 ^ 8 - 1 / 200) \<or> (a < 0 \<and> - (10 ^ 7 - 1 / 200) < a)"
  shows "length (fixed_digits 2 a) \<le> 11"
proof -
  define n where "n = nat \<lfloor>\<bar>a\<bar> * 10 ^ 2 + 1 / 2\<rfloor>"
  have len: "length (fixed_digits 2 a) =
      (if a < 0 then 1 else 0) + max (length (dec_digits n)) 3 + 1"
    unfolding n_def by (rule fixed_digits_two_len)
  have nonneg: "0 \<le> \<bar>a\<bar> * 10 ^ 2 + 1 / 2" by simp
  from assms show ?thesis
  proof
    assume pos: "0 \<le> a \<and> a < 10 ^ 8 - 1 / 200"
    then have "\<bar>a\<bar> * 10 ^ 2 + 1 / 2 < of_nat (10 ^ 10)" by simp
    with nonneg have "n < 10 ^ 10" unfolding n_def by (rule nat_floor_less)
    then have "length (dec_digits n) \<le> 10" by (rule dec_digits_length) simp
    moreover from pos have "\<not> a < 0" by simp
    ultimately show ?thesis
      unfolding len by simp
  next
    assume neg: "a < 0 \<and> - (10 ^ 7 - 1 / 200) < a"
    then have "\<bar>a\<bar> * 10 ^ 2 + 1 / 2 < of_nat (10 ^ 9)" by simp
    with nonneg have "n < 10 ^ 9" unfolding n_def by (rule nat_floor_less)
    then have "length (dec_digits n) \<le> 9" by (rule dec_digits_length) simp
    moreover from neg have "a < 0" by simp
    ultimately show ?thesis
      unfolding len by simp
  qed
qed

lemma amount_overflows:
  assumes "10 ^ 8 - 1 / 200 \<le> a \<or> a \<le> - (10 ^ 7 - 1 / 200)"
  shows "12 \<le> length (fixed_digits 2 a)"
proof -
  define n where "n = nat \<lfloor>\<bar>a\<bar> * 10 ^ 2 + 1 / 2\<rfloor>"
  have len: "length (fixed_digits 2 a) =
      (if a < 0 then 1 else 0) + max (length (dec_digits n)) 3 + 1"
    unfolding n_def by (rule fixed_digits_two_len)
  from assms show ?thesis
  proof
    assume big: "10 ^ 8 - 1 / 200 \<le> a"
    then have "of_nat (10 ^ 10) \<le> \<bar>a\<bar> * 10 ^ 2 + 1 / 2" by simp
    then have "10 ^ 10 \<le> n" unfolding n_def by (rule nat_floor_ge)
    then have "10 + 1 \<le> length (dec_digits n)" by (rule dec_digits_length_ge)
    moreover from big have "\<not> a < 0" by simp
    ultimately show ?thesis
      unfolding len by simp
  next
    assume low: "a \<le> - (10 ^ 7 - 1 / 200)"
    then have "of_nat (10 ^ 9) \<le> \<bar>a\<bar> * 10 ^ 2 + 1 / 2" by simp
    then have "10 ^ 9 \<le> n" unfolding n_def by (rule nat_floor_ge)
    then have "9 + 1 \<le> length (dec_digits n)" by (rule dec_digits_length_ge)
    moreover from low have "a < 0" by simp
    ultimately show ?thesis
      unfolding len by simp
  qed
qed

lemma item_row_amount:
  assumes "num_mul rt (toNumber rt (price item)) (toNumber rt (quantity item)) = Fin a"
  shows "bill_item_row rt item =
      padEnd (toStr rt (itemName item)) 22 @ padEnd (toStr rt (quantity item)) 4
      @ padStart (''Rs '' @ toFixed rt 2 (Fin a)) 14 @ ''\<newline>''
      @ customization_lines rt ''  + '' item"
  by (simp add: bill_item_row_def Let_def assms)

lemma amount_field_full:
  assumes "(0 \<le> a \<and> a < 10 ^ 8 - 1 / 200) \<or> (a < 0 \<and> - (10 ^ 7 - 1 / 200) < a)"
  shows "padStart (''Rs '' @ toFixed rt 2 (Fin a)) 14 =
      replicate (11 - length (toFixed rt 2 (Fin a))) CHR '' '' @ ''Rs '' @ toFixed rt 2 (Fin a)
    \<and> length (toFixed rt 2 (Fin a)) \<le> 11"
proof -
  from assms have "\<bar>a\<bar> < 10 ^ 21" by auto
  then have fixed: "toFixed rt 2 (Fin a) = fixed_digits 2 a" by (rule toFixed_below_limit)
  have len: "length (toFixed rt 2 (Fin a)) \<le> 11"
    unfolding fixed using assms by (rule amount_fits)
  then have "length (''Rs '' @ toFixed rt 2 (Fin a)) \<le> 14" by simp
  then have "padStart (''Rs '' @ toFixed rt 2 (Fin a)) 14 =
      replicate (14 - length (''Rs '' @ toFixed rt 2 (Fin a))) CHR '' ''
      @ ''Rs '' @ toFixed rt 2 (Fin a)"
    by (rule padStart_keeps)
  with len show ?thesis by simp
qed

lemma amount_field_cut:
  assumes "\<bar>a\<bar> < 10 ^ 21" and "10 ^ 8 - 1 / 200 \<le> a \<or> a \<le> - (10 ^ 7 - 1 / 200)"
  shows "padStart (''Rs '' @ toFixed rt 2 (Fin a)) 14 = take 14 (''Rs '' @ toFixed rt 2 (Fin a))
    \<and> 14 < length (''Rs '' @ toFixed rt 2 (Fin a))"
proof -
  from assms(1) have fixed: "toFixed rt 2 (Fin a) = fixed_digits 2 a"
    by (rule toFixed_below_limit)
  have "12 \<le> length (toFixed rt 2 (Fin a))"
    unfolding fixed using assms(2) by (rule amount_overflows)
  then have long: "14 < length (''Rs '' @ toFixed rt 2 (Fin a))" by simp
  then have "14 \<le> length (''Rs '' @ toFixed rt 2 (Fin a))" by simp
  then have "padStart (''Rs '' @ toFixed rt 2 (Fin a)) 14
      = take 14 (''Rs '' @ toFixed rt 2 (Fin a))"
    by (rule padStart_cuts)
  with long show ?thesis by blast
qed

lemma scenario_totals:
  assumes "subtotal od = JNum (Fin 100)" and "tax od = JNum (Fin 10)"
    and "total od = JNum (Fin 110)" and "round64 rt 5 = Fin 5"
  shows "bill_totals rt od =
     Inr (''Subtotal:                      Rs 100.00\<newline>''
          @ ''CGST 2.5%:                         +5.00\<newline>''
          @ ''SGST 2.5%:                         +5.00\<newline>''
          @ dashes @ CMD_BOLD_ON @ CMD_DOUBLE_HEIGHT
          @ ''TOTAL:                            Rs 110\<newline>''
          @ CMD_NORMAL_TEXT @ CMD_BOLD_OFF @ dashes)"
  using assms
  by (simp add: bill_totals_rows [of od "Fin 100" "Fin 110"] toNumber_def num_half_def
      toFixed_examples twoCol_gap replicate_numeral_Cons)

text \<open>
  C5, as the code has it. \<open>toFixed(2)\<close> writes a finite number below \<open>10^21\<close> in
  magnitude as a sign, at least one digit, a point and exactly two digits, and
  \<open>toFixed(0)\<close> writes it as a sign and digits with no point. The subtotal row shows
  \<open>Rs\<close> and \<open>subtotal.toFixed(2)\<close>, the CGST and SGST rows each show \<open>+\<close> and
  \<open>(tax / 2).toFixed(2)\<close>, which is half of the tax whenever that half is a binary64
  value, and the total row shows \<open>Rs\<close> and \<open>total.toFixed(0)\<close>. A per-item amount
  \<open>price * quantity\<close> is formatted with \<open>toFixed(2)\<close> and then fitted by \<open>padStart\<close>
  into a field of exactly 14 characters that holds \<open>Rs\<close>, a space and the amount. The
  field shows the amount in full, right-aligned, when the amount is non-negative and
  below \<open>10^8 - 0.005\<close>, or negative and above \<open>-(10^7 - 0.005)\<close>: then the formatted
  amount has at most 11 characters. For every other amount below \<open>10^21\<close> in magnitude
  the field is the first 14 characters of a longer text, so that characters at the end
  of the amount are lost. For subtotal 100, tax 10 and total 110 the rows read
  \<open>Rs 100.00\<close>, \<open>+5.00\<close>, \<open>+5.00\<close> and \<open>Rs 110\<close>. From \<open>10^21\<close> on, \<open>toFixed\<close>
  gives what \<open>Number::toString\<close> gives, whatever the number of places asked for.
\<close>

theorem bill_amounts:
  "(\<bar>q\<bar> < 10 ^ 21 \<longrightarrow>
      (\<exists>ip fp. toFixed rt 2 (Fin q) = (if q < 0 then ''-'' else '''') @ ip @ ''.'' @ fp
         \<and> ip \<noteq> [] \<and> list_all is_digit ip \<and> length fp = 2 \<and> list_all is_digit fp))
   \<and> (\<bar>q\<bar> < 10 ^ 21 \<longrightarrow>
      (\<exists>ip. toFixed rt 0 (Fin q) = (if q < 0 then ''-'' else '''') @ ip
         \<and> ip \<noteq> [] \<and> list_all is_digit ip))
   \<and> (subtotal od = JNum s \<and> total od = JNum t \<longrightarrow>
      bill_totals rt od =
        Inr (twoCol ''Subtotal:'' (''Rs '' @ toFixed rt 2 s) 40
             @ twoCol ''CGST 2.5%:''
                 (''+'' @ toFixed rt 2 (num_half rt (toNumber rt (tax od)))) 40
             @ twoCol ''SGST 2.5%:''
                 (''+'' @ toFixed rt 2 (num_half rt (toNumber rt (tax od)))) 40
             @ dashes @ CMD_BOLD_ON @ CMD_DOUBLE_HEIGHT
             @ twoCol ''TOTAL:'' (''Rs '' @ toFixed rt 0 t) 40
             @ CMD_NORMAL_TEXT @ CMD_BOLD_OFF @ dashes))
   \<and> (tax od = JNum (Fin x) \<and> round64 rt (x / 2) = Fin (x / 2) \<longrightarrow>
      num_half rt (toNumber rt (tax od)) = Fin (x / 2))
   \<and> (num_mul rt (toNumber rt (price item)) (toNumber rt (quantity item)) = Fin a \<longrightarrow>
      bill_item_row rt item =
        padEnd (toStr rt (itemName item)) 22 @ padEnd (toStr rt (quantity item)) 4
        @ padStart (''Rs '' @ toFixed rt 2 (Fin a)) 14 @ ''\<newline>''
        @ customization_lines rt ''  + '' item
      \<and> length (padStart (''Rs '' @ toFixed rt 2 (Fin a)) 14) = 14)
   \<and> ((0 \<le> a \<and> a < 10 ^ 8 - 1 / 200) \<or> (a < 0 \<and> - (10 ^ 7 - 1 / 200) < a) \<longrightarrow>
      padStart (''Rs '' @ toFixed rt 2 (Fin a)) 14 =
        replicate (11 - length (toFixed rt 2 (Fin a))) CHR '' '' @ ''Rs ''
        @ toFixed rt 2 (Fin a)
      \<and> length (toFixed rt 2 (Fin a)) \<le> 11)
   \<and> (\<bar>a\<bar> < 10 ^ 21 \<and> (10 ^ 8 - 1 / 200 \<le> a \<or> a \<le> - (10 ^ 7 - 1 / 200)) \<longrightarrow>
      padStart (''Rs '' @ toFixed rt 2 (Fin a)) 14 = take 14 (''Rs '' @ toFixed rt 2 (Fin a))
      \<and> 14 < length (''Rs '' @ toFixed rt 2 (Fin a)))
   \<and> (subtotal od' = JNum (Fin 100) \<and> tax od' = JNum (Fin 10) \<and> total od' = JNum (Fin 110)
        \<and> round64 rt 5 = Fin 5 \<longrightarrow>
      bill_totals rt od' =
        Inr (''Subtotal:                      Rs 100.00\<newline>''
             @ ''CGST 2.5%:                         +5.00\<newline>''
             @ ''SGST 2.5%:                         +5.00\<newline>''
             @ dashes @ CMD_BOLD_ON @ CMD_DOUBLE_HEIGHT
             @ ''TOTAL:                            Rs 110\<newline>''
             @ CMD_NORMAL_TEXT @ CMD_BOLD_OFF @ dashes))
   \<and> (10 ^ 21 \<le> \<bar>q\<bar> \<longrightarrow> toFixed rt f (Fin q) = numberToString rt (Fin q))"
proof -
  have two: "\<exists>ip fp. toFixed rt 2 (Fin q) = (if q < 0 then ''-'' else '''') @ ip @ ''.'' @ fp
      \<and> ip \<noteq> [] \<and> list_all is_digit ip \<and> length fp = 2 \<and> list_all is_digit fp"
    if "\<bar>q\<bar> < 10 ^ 21"
    using that by (rule toFixed_two_places)
  have none: "\<exists>ip. toFixed rt 0 (Fin q) = (if q < 0 then ''-'' else '''') @ ip
      \<and> ip \<noteq> [] \<and> list_all is_digit ip"
    if "\<bar>q\<bar> < 10 ^ 21"
    using that by (rule toFixed_no_places)
  have rows: "bill_totals rt od =
        Inr (twoCol ''Subtotal:'' (''Rs '' @ toFixed rt 2 s) 40
             @ twoCol ''CGST 2.5%:''
                 (''+'' @ toFixed rt 2 (num_half rt (toNumber rt (tax od)))) 40
             @ twoCol ''SGST 2.5%:''
                 (''+'' @ toFixed rt 2 (num_half rt (toNumber rt (tax od)))) 40
             @ dashes @ CMD_BOLD_ON @ CMD_DOUBLE_HEIGHT
             @ twoCol ''TOTAL:'' (''Rs '' @ toFixed rt 0 t) 40
             @ CMD_NORMAL_TEXT @ CMD_BOLD_OFF @ dashes)"
    if "subtotal od = JNum s \<and> total od = JNum t"
    using that bill_totals_rows by blast
  have half: "num_half rt (toNumber rt (tax od)) = Fin (x / 2)"
    if "tax od = JNum (Fin x) \<and> round64 rt (x / 2) = Fin (x / 2)"
    using that half_of_tax by blast
  have row: "bill_item_row rt item =
        padEnd (toStr rt (itemName item)) 22 @ padEnd (toStr rt (quantity item)) 4
        @ padStart (''Rs '' @ toFixed rt 2 (Fin a)) 14 @ ''\<newline>''
        @ customization_lines rt ''  + '' item
      \<and> length (padStart (''Rs '' @ toFixed rt 2 (Fin a)) 14) = 14"
    if "num_mul rt (toNumber rt (price item)) (toNumber rt (quantity item)) = Fin a"
    using item_row_amount [OF that] length_padStart by blast
  have full: "padStart (''Rs '' @ toFixed rt 2 (Fin a)) 14 =
        replicate (11 - length (toFixed rt 2 (Fin a))) CHR '' '' @ ''Rs ''
        @ toFixed rt 2 (Fin a)
      \<and> length (toFixed rt 2 (Fin a)) \<le> 11"
    if "(0 \<le> a \<and> a < 10 ^ 8 - 1 / 200) \<or> (a < 0 \<and> - (10 ^ 7 - 1 / 200) < a)"
    using that by (rule amount_field_full)
  have cut: "padStart (''Rs '' @ toFixed rt 2 (Fin a)) 14
        = take 14 (''Rs '' @ toFixed rt 2 (Fin a))
      \<and> 14 < length (''Rs '' @ toFixed rt 2 (Fin a))"
    if "\<bar>a\<bar> < 10 ^ 21 \<and> (10 ^ 8 - 1 / 200 \<le> a \<or> a \<le> - (10 ^ 7 - 1 / 200))"
    using that amount_field_cut [of a rt] by blast
  have scenario: "bill_totals rt od' =
        Inr (''Subtotal:                      Rs 100.00\<newline>''
             @ ''CGST 2.5%:                         +5.00\<newline>''
             @ ''SGST 2.5%:                         +5.00\<newline>''
             @ dashes @ CMD_BOLD_ON @ CMD_DOUBLE_HEIGHT
             @ ''TOTAL:                            Rs 110\<newline>''
             @ CMD_NORMAL_TEXT @ CMD_BOLD_OFF @ dashes)"
    if "subtotal od' = JNum (Fin 100) \<and> tax od' = JNum (Fin 10)
      \<and> total od' = JNum (Fin 110) \<and> round64 rt 5 = Fin 5"
    using that scenario_totals [of od' rt] by blast
  have beyond: "toFixed rt f (Fin q) = numberToString rt (Fin q)" if "10 ^ 21 \<le> \<bar>q\<bar>"
    using that by (simp add: toFixed_def)
  show ?thesis
    apply (intro conjI impI)
             apply (erule two)
            apply (erule none)
           apply (erule rows)
          apply (erule half)
         apply (erule row [THEN conjunct1])
        apply (erule row [THEN conjunct2])
       apply (erule full [THEN conjunct1])
      apply (erule full [THEN conjunct2])
     apply (erule cut [THEN conjunct1])
    apply (erule cut [THEN conjunct2])
   apply (erule scenario)
  apply (erule beyond)
  done
qed

lemma idli_amount:
  "num_mul example_runtime (toNumber example_runtime (price idli))
     (toNumber example_runtime (quantity idli)) = Fin 80"
  by (simp add: num_mul_def toNumber_def idli_def example_runtime_def)

theorem bill_amounts_witness:
  "(\<exists>ip fp. toFixed example_runtime 2 (Fin 80) = ip @ ''.'' @ fp
      \<and> ip \<noteq> [] \<and> list_all is_digit ip \<and> length fp = 2 \<and> list_all is_digit fp)
   \<and> (\<exists>ip. toFixed example_runtime 0 (Fin 80) = ip \<and> ip \<noteq> [] \<and> list_all is_digit ip)
   \<and> num_half example_runtime (toNumber example_runtime (tax example_order)) = Fin 5
   \<and> bill_item_row example_runtime idli =
       padEnd ''Idli'' 22 @ padEnd ''2'' 4 @ padStart (''Rs '' @ ''80.00'') 14 @ ''\<newline>''
   \<and> padStart (''Rs '' @ ''80.00'') 14 = replicate 6 CHR '' '' @ ''Rs '' @ ''80.00''
   \<and> bill_totals example_runtime example_order =
        Inr (''Subtotal:                      Rs 100.00\<newline>''
             @ ''CGST 2.5%:                         +5.00\<newline>''
             @ ''SGST 2.5%:                         +5.00\<newline>''
             @ dashes @ CMD_BOLD_ON @ CMD_DOUBLE_HEIGHT
             @ ''TOTAL:                            Rs 110\<newline>''
             @ CMD_NORMAL_TEXT @ CMD_BOLD_OFF @ dashes)"
proof -
  have small: "\<bar>80::rat\<bar> < 10 ^ 21" by simp
  have fields: "subtotal example_order = JNum (Fin 100) \<and> tax example_order = JNum (Fin 10)
      \<and> total example_order = JNum (Fin 110) \<and> round64 example_runtime 5 = Fin 5"
    by (simp add: example_order_def example_runtime_def)
  have half: "tax example_order = JNum (Fin 10)
      \<and> round64 example_runtime (10 / 2) = Fin (10 / 2)"
    by (simp add: example_order_def example_runtime_def)
  have range: "((0::rat) \<le> 80 \<and> (80::rat) < 10 ^ 8 - 1 / 200)
      \<or> ((80::rat) < 0 \<and> - (10 ^ 7 - 1 / 200) < (80::rat))"
    by simp
  have row: "customization_lines example_runtime ''  + '' idli = []"
    "toStr example_runtime (itemName idli) = ''Idli''"
    "toStr example_runtime (quantity idli) = ''2''"
    by (simp_all add: customization_lines_def idli_def toStr_def numberToString_examples)
  have eighty: "toFixed example_runtime 2 (Fin 80) = ''80.00''"
    by (rule toFixed_examples)
  note inst = bill_amounts [where q = 80 and rt = example_runtime and od = example_order
      and s = "Fin 100" and t = "Fin 110" and x = 10 and item = idli and a = 80
      and od' = example_order]
  have two: "\<exists>ip fp. toFixed example_runtime 2 (Fin 80) = ip @ ''.'' @ fp
      \<and> ip \<noteq> [] \<and> list_all is_digit ip \<and> length fp = 2 \<and> list_all is_digit fp"
    using inst small by simp
  have none: "\<exists>ip. toFixed example_runtime 0 (Fin 80) = ip \<and> ip \<noteq> []
      \<and> list_all is_digit ip"
    using inst small by simp
  have "num_half example_runtime (toNumber example_runtime (tax example_order)) = Fin (10 / 2)"
    using inst half by blast
  then have halved: "num_half example_runtime (toNumber example_runtime (tax example_order))
      = Fin 5"
    by simp
  have "bill_item_row example_runtime idli =
         padEnd (toStr example_runtime (itemName idli)) 22
         @ padEnd (toStr example_runtime (quantity idli)) 4
         @ padStart (''Rs '' @ toFixed example_runtime 2 (Fin 80)) 14 @ ''\<newline>''
         @ customization_lines example_runtime ''  + '' idli"
    using inst idli_amount by blast
  then have item_row: "bill_item_row example_runtime idli =
       padEnd ''Idli'' 22 @ padEnd ''2'' 4 @ padStart (''Rs '' @ ''80.00'') 14 @ ''\<newline>''"
    by (simp only: row eighty append_Nil2)
  have "padStart (''Rs '' @ toFixed example_runtime 2 (Fin 80)) 14 =
        replicate (11 - length (toFixed example_runtime 2 (Fin 80))) CHR '' '' @ ''Rs ''
        @ toFixed example_runtime 2 (Fin 80)"
    using inst range by blast
  then have in_full: "padStart (''Rs '' @ ''80.00'') 14
      = replicate 6 CHR '' '' @ ''Rs '' @ ''80.00''"
    by (simp add: eighty)
  have rows: "bill_totals example_runtime example_order =
        Inr (''Subtotal:                      Rs 100.00\<newline>''
             @ ''CGST 2.5%:                         +5.00\<newline>''
             @ ''SGST 2.5%:                         +5.00\<newline>''
             @ dashes @ CMD_BOLD_ON @ CMD_DOUBLE_HEIGHT
             @ ''TOTAL:                            Rs 110\<newline>''
             @ CMD_NORMAL_TEXT @ CMD_BOLD_OFF @ dashes)"
    using inst fields by blast
  from two none halved item_row in_full rows show ?thesis
    by blast
qed

text \<open>
  The claim as stated fails for an amount of one hundred million: \<open>toFixed(2)\<close> gives
  it two decimals, and \<open>padStart\<close> keeps the first 14 characters of the field, so the
  row shows one.
\<close>

theorem large_amount_is_cut:
  "toFixed example_runtime 2
     (num_mul example_runtime (toNumber example_runtime (price banquet))
        (toNumber example_runtime (quantity banquet))) = ''100000000.00''
   \<and> bill_item_row example_runtime banquet = ''Banquet               1   Rs 100000000.0\<newline>''"
  by (simp add: bill_item_row_def banquet_def toNumber_def num_mul_def example_runtime_def
      toFixed_examples toStr_def numberToString_examples padEnd_def padStart_def
      customization_lines_def replicate_numeral_Cons)

end
